theory Spec2Isabelle
  imports Complex_Main
begin

section \<open>Python strings\<close>

text \<open>
  A Python \<open>str\<close> is modelled as a \<open>string\<close>: each \<open>char\<close> stands for one code point
  in the range U+0000..U+00FF.  \<open>is_space\<close> is \<open>str.isspace\<close> on that range (the
  predicate behind \<open>str.strip()\<close>, \<open>str.split()\<close> and the regular expression class
  \<open>\s\<close>), \<open>py_lower\<close> is \<open>str.lower\<close> on that range.
\<close>

definition is_space :: "char \<Rightarrow> bool" where
  "is_space c = (c \<in> set [CHR 0x09, CHR 0x0A, CHR 0x0B, CHR 0x0C, CHR 0x0D,
                             CHR 0x1C, CHR 0x1D, CHR 0x1E, CHR 0x1F, CHR 0x20,
                             CHR 0x85, CHR 0xA0])"

definition py_strip :: "string \<Rightarrow> string" where
  "py_strip s = rev (dropWhile is_space (rev (dropWhile is_space s)))"

definition lower_char :: "char \<Rightarrow> char" where
  "lower_char c =
     (let n = (of_char c :: nat)
      in if (65 \<le> n \<and> n \<le> 90) \<or> (192 \<le> n \<and> n \<le> 222 \<and> n \<noteq> 215)
         then char_of (n + 32) else c)"

definition py_lower :: "string \<Rightarrow> string" where
  "py_lower s = map lower_char s"

text \<open>\<open>str.split()\<close> without arguments: the maximal runs of non-whitespace.\<close>

fun split_ws :: "string \<Rightarrow> string \<Rightarrow> string list" where
  "split_ws cur [] = (if cur = [] then [] else [cur])"
| "split_ws cur (c # cs) =
     (if is_space c then (if cur = [] then split_ws [] cs else cur # split_ws [] cs)
      else split_ws (cur @ [c]) cs)"

definition py_split :: "string \<Rightarrow> string list" where
  "py_split s = split_ws [] s"

fun py_join :: "string \<Rightarrow> string list \<Rightarrow> string" where
  "py_join sep [] = []"
| "py_join sep [x] = x"
| "py_join sep (x # y # zs) = x @ sep @ py_join sep (y # zs)"

definition endswith :: "string \<Rightarrow> string \<Rightarrow> bool" where
  "endswith s suf = (length suf \<le> length s \<and> drop (length s - length suf) s = suf)"

text \<open>\<open>x or d\<close> on a string: the empty string is falsy.\<close>

definition str_or :: "string \<Rightarrow> string \<Rightarrow> string" where
  "str_or x d = (if x = [] then d else x)"

section \<open>context\_window.py\<close>

record ContextBudget =
  model_window_tokens :: int
  summary_target_tokens :: int
  live_chat_target_tokens :: int
  reserved_buffer_tokens :: int

text \<open>
  The tokenizer artifact is loaded from the \<open>tokenizers\<close> package, which is not part of
  the repository: its \<open>encode\<close> (text to token ids) and \<open>decode\<close> are parameters.
\<close>

record OSS20BTokenizer =
  tok_encode :: "string \<Rightarrow> nat list"
  tok_decode :: "nat list \<Rightarrow> string"

definition count :: "OSS20BTokenizer \<Rightarrow> string \<Rightarrow> int" where
  "count tk text = int (length (tok_encode tk (str_or text [])))"

definition truncate_to_tokens :: "OSS20BTokenizer \<Rightarrow> string \<Rightarrow> int \<Rightarrow> string" where
  "truncate_to_tokens tk text max_tokens =
     (if max_tokens \<le> 0 then []
      else let ids = tok_encode tk (str_or text [])
           in if int (length ids) \<le> max_tokens then str_or text []
              else tok_decode tk (take (nat max_tokens) ids))"

text \<open>A live-chat message: the dictionary \<open>{"role": ..., "content": ...}\<close>.\<close>

record message =
  role :: string
  content :: string

fun format_lines :: "message list \<Rightarrow> string list" where
  "format_lines [] = []"
| "format_lines (m # ms) =
     (let r = py_lower (py_strip (str_or (role m) []));
          c = py_strip (str_or (content m) [])
      in if c = [] then format_lines ms
         else if r = ''assistant'' then (''Assistant: '' @ c) # format_lines ms
         else (''User: '' @ c) # format_lines ms)"

definition format_live_chat :: "message list \<Rightarrow> string" where
  "format_live_chat messages = py_join [CHR 0x0A] (format_lines messages)"

text \<open>\<open>turns\<close> is a Python integer; \<open>turns or 1\<close> replaces 0 by 1.\<close>

definition keep_last_turns :: "message list \<Rightarrow> int \<Rightarrow> message list" where
  "keep_last_turns messages turns =
     (let n_turns = max 1 (if turns = 0 then 1 else turns);
          max_messages = n_turns * 2
      in if int (length messages) \<le> max_messages then messages
         else drop (length messages - nat max_messages) messages)"

record metrics =
  m_system_block :: int
  m_conversation_summary :: int
  m_live_chat_buffer :: int
  m_tool_injections :: int
  m_reserved_buffer :: int
  m_current_user_input :: int
  m_used_without_reserve :: int
  m_total_with_reserve :: int
  m_model_window :: int
  m_pressure :: bool

record ContextWindowManager =
  tokenizer :: OSS20BTokenizer
  budget :: ContextBudget

definition count_buckets ::
  "ContextWindowManager \<Rightarrow> string \<Rightarrow> string \<Rightarrow> message list \<Rightarrow> string \<Rightarrow> string \<Rightarrow> metrics"
where
  "count_buckets cw system_block conversation_summary live_chat_messages tool_injections
       current_user_input =
     (let summary_block =
            py_strip (''Conversation Summary (non-authoritative):'' @ [CHR 0x0A]
                      @ py_strip conversation_summary);
          live_block = format_live_chat live_chat_messages;
          user_block = ''Current User Input:'' @ [CHR 0x0A]
                       @ py_strip (str_or current_user_input []);
          system_tokens = count (tokenizer cw) system_block;
          summary_tokens = count (tokenizer cw) summary_block;
          live_chat_tokens = count (tokenizer cw) live_block;
          tool_tokens = count (tokenizer cw) (str_or tool_injections []);
          current_input_tokens = count (tokenizer cw) user_block;
          reserved_tokens = max 0 (reserved_buffer_tokens (budget cw));
          used_without_reserve = system_tokens + summary_tokens + live_chat_tokens
                                 + tool_tokens + current_input_tokens;
          total_with_reserve = used_without_reserve + reserved_tokens;
          pressure = (total_with_reserve > model_window_tokens (budget cw))
      in \<lparr> m_system_block = system_tokens,
           m_conversation_summary = summary_tokens,
           m_live_chat_buffer = live_chat_tokens,
           m_tool_injections = tool_tokens,
           m_reserved_buffer = reserved_tokens,
           m_current_user_input = current_input_tokens,
           m_used_without_reserve = used_without_reserve,
           m_total_with_reserve = total_with_reserve,
           m_model_window = model_window_tokens (budget cw),
           m_pressure = pressure \<rparr>)"

text \<open>
  The eviction loop of \<open>fit_live_chat_to_budget\<close> on the value of the working list
  \<open>msgs\<close>: while the list is non-empty and the metrics report pressure, the first
  element is popped and the metrics are recomputed.
\<close>

fun evict_loop ::
  "ContextWindowManager \<Rightarrow> string \<Rightarrow> string \<Rightarrow> string \<Rightarrow> string \<Rightarrow> message list
     \<Rightarrow> message list \<times> metrics"
where
  "evict_loop cw sb cs ti ui [] = ([], count_buckets cw sb cs [] ti ui)"
| "evict_loop cw sb cs ti ui (m # ms) =
     (if m_pressure (count_buckets cw sb cs (m # ms) ti ui)
      then evict_loop cw sb cs ti ui ms
      else (m # ms, count_buckets cw sb cs (m # ms) ti ui))"

text \<open>
  \<open>live_chat_messages\<close> may be \<open>None\<close>; \<open>list(live_chat_messages or [])\<close> makes the
  working copy.
\<close>

definition fit_live_chat_to_budget ::
  "ContextWindowManager \<Rightarrow> string \<Rightarrow> string \<Rightarrow> message list option \<Rightarrow> string \<Rightarrow> string
     \<Rightarrow> message list \<times> metrics"
where
  "fit_live_chat_to_budget cw system_block conversation_summary live_chat_messages
       tool_injections current_user_input =
     evict_loop cw system_block conversation_summary tool_injections current_user_input
       (case live_chat_messages of None \<Rightarrow> [] | Some l \<Rightarrow> l)"

definition render_chat_first_prompt ::
  "string \<Rightarrow> message list \<Rightarrow> string \<Rightarrow> string \<Rightarrow> string"
where
  "render_chat_first_prompt conversation_summary live_chat_messages current_user_input
       tool_injections =
     (let blocks = [''Conversation Summary (non-authoritative):'',
                    str_or (py_strip (str_or conversation_summary [])) ''(none)'',
                    [],
                    ''Live Chat (recent turns):'',
                    str_or (format_live_chat live_chat_messages) ''(none)''];
          blocks = (if tool_injections \<noteq> [] \<and> py_strip tool_injections \<noteq> []
                    then blocks @ [[], py_strip tool_injections] else blocks);
          blocks = blocks @ [[], ''Current User Input:'',
                             py_strip (str_or current_user_input [])]
      in py_strip (py_join [CHR 0x0A] blocks))"

section \<open>Exceptions\<close>

text \<open>
  An exception derived from \<open>Exception\<close> (what \<open>except Exception\<close> catches), with its
  message.
\<close>

datatype exn = Exception string

section \<open>state.py\<close>

text \<open>
  A Python float: a finite double, modelled by the real number it denotes (so that
  \<open>0.0\<close> and \<open>-0.0\<close>, which Python's \<open>==\<close> identifies, are one value), an infinity, or
  NaN.  \<open>float_lt a b\<close> is Python's \<open>a < b\<close>: every comparison with NaN is false.
\<close>

datatype pyfloat = Fin real | PosInf | NegInf | NaN

fun float_lt :: "pyfloat \<Rightarrow> pyfloat \<Rightarrow> bool" where
  "float_lt NaN b = False"
| "float_lt a NaN = False"
| "float_lt PosInf b = False"
| "float_lt NegInf b = (b \<noteq> NegInf)"
| "float_lt (Fin x) PosInf = True"
| "float_lt (Fin x) NegInf = False"
| "float_lt (Fin x) (Fin y) = (x < y)"

text \<open>
  The values a dictionary of type \<open>Dict[str, Any]\<close> carries: \<open>None\<close>, booleans,
  integers, floats, strings, lists and dictionaries.  A dictionary with string keys
  is a map from keys to values; \<open>d.get(k)\<close> on a missing key is \<open>None\<close>.
\<close>

datatype pyval =
  PNone | PBool bool | PInt int | PFloat pyfloat | PStr string | PList "pyval list"
| PDict "(string \<times> pyval) list"

type_synonym pydict = "string \<rightharpoonup> pyval"

definition dict_get :: "pydict \<Rightarrow> string \<Rightarrow> pyval" where
  "dict_get d k = (case d k of None \<Rightarrow> PNone | Some v \<Rightarrow> v)"

definition dict_get_default :: "pydict \<Rightarrow> string \<Rightarrow> pyval \<Rightarrow> pyval" where
  "dict_get_default d k dflt = (case d k of None \<Rightarrow> dflt | Some v \<Rightarrow> v)"

text \<open>
  \<open>float(x)\<close>, with \<open>None\<close> where it raises: \<open>None\<close>, a list and a dictionary raise
  \<open>TypeError\<close>, an integer too large for a double raises \<open>OverflowError\<close>.  For any
  other integer \<open>float\<close> rounds to the nearest double; rounding is monotone and leaves
  0 and 1 fixed, so that the comparisons with 0.0 and 1.0 in \<open>_clamp01\<close> and the value
  it returns are those of the integer itself.  A string is parsed by Python's own
  parser, which is the parameter \<open>float_of_str\<close> (\<open>None\<close> where it raises \<open>ValueError\<close>).
\<close>

definition py_float :: "(string \<Rightarrow> pyfloat option) \<Rightarrow> pyval \<Rightarrow> pyfloat option" where
  "py_float float_of_str x =
     (case x of
        PNone \<Rightarrow> None
      | PBool b \<Rightarrow> Some (Fin (if b then 1 else 0))
      | PInt i \<Rightarrow> (if \<bar>i\<bar> \<ge> 2 ^ 1024 - 2 ^ 970 then None else Some (Fin (of_int i)))
      | PFloat f \<Rightarrow> Some f
      | PStr t \<Rightarrow> float_of_str t
      | PList l \<Rightarrow> None
      | PDict d \<Rightarrow> None)"

text \<open>\<open>bool(x)\<close>: the truth value of \<open>x\<close>.\<close>

definition py_bool :: "pyval \<Rightarrow> bool" where
  "py_bool x =
     (case x of
        PNone \<Rightarrow> False
      | PBool b \<Rightarrow> b
      | PInt i \<Rightarrow> i \<noteq> 0
      | PFloat f \<Rightarrow> f \<noteq> Fin 0
      | PStr t \<Rightarrow> t \<noteq> []
      | PList l \<Rightarrow> l \<noteq> []
      | PDict d \<Rightarrow> d \<noteq> [])"

record IdentityState =
  system_id :: string
  display_name :: string
  agent_name :: string
  version :: string
  id_role :: string
  core_directive :: string
  tone_baseline :: string
  tone_active :: string

text \<open>
  \<open>_clamp01\<close>: a value for which both comparisons are false is returned as it is, so
  NaN is returned unchanged.
\<close>

definition clamp01 :: "(string \<Rightarrow> pyfloat option) \<Rightarrow> pyval \<Rightarrow> pyfloat \<Rightarrow> pyfloat" where
  "clamp01 float_of_str x dflt =
     (case py_float float_of_str x of
        None \<Rightarrow> dflt
      | Some v \<Rightarrow>
          (if float_lt v (Fin 0) then Fin 0 else if float_lt (Fin 1) v then Fin 1 else v))"

record AffectState =
  curiosity :: pyfloat
  calm :: pyfloat
  confidence :: pyfloat
  tension :: pyfloat
  engagement :: pyfloat

definition AffectState_to_dict :: "AffectState \<Rightarrow> pydict" where
  "AffectState_to_dict a =
     [''curiosity'' \<mapsto> PFloat (curiosity a),
      ''calm'' \<mapsto> PFloat (calm a),
      ''confidence'' \<mapsto> PFloat (confidence a),
      ''tension'' \<mapsto> PFloat (tension a),
      ''engagement'' \<mapsto> PFloat (engagement a)]"

definition AffectState_from_dict :: "(string \<Rightarrow> pyfloat option) \<Rightarrow> pydict \<Rightarrow> AffectState" where
  "AffectState_from_dict float_of_str obj =
     \<lparr> curiosity = clamp01 float_of_str (dict_get obj ''curiosity'') (Fin (75 / 100)),
       calm = clamp01 float_of_str (dict_get obj ''calm'') (Fin (6 / 10)),
       confidence = clamp01 float_of_str (dict_get obj ''confidence'') (Fin (55 / 100)),
       tension = clamp01 float_of_str (dict_get obj ''tension'') (Fin (2 / 10)),
       engagement = clamp01 float_of_str (dict_get obj ''engagement'') (Fin (65 / 100)) \<rparr>"

record IntegrityState =
  last_turn_consistent :: bool
  contradictions_detected :: bool

definition IntegrityState_to_dict :: "IntegrityState \<Rightarrow> pydict" where
  "IntegrityState_to_dict i =
     [''last_turn_consistent'' \<mapsto> PBool (last_turn_consistent i),
      ''contradictions_detected'' \<mapsto> PBool (contradictions_detected i)]"

definition IntegrityState_from_dict :: "pydict \<Rightarrow> IntegrityState" where
  "IntegrityState_from_dict obj =
     \<lparr> last_turn_consistent =
         py_bool (dict_get_default obj ''last_turn_consistent'' (PBool True)),
       contradictions_detected =
         py_bool (dict_get_default obj ''contradictions_detected'' (PBool False)) \<rparr>"

text \<open>
  \<open>context_metrics\<close> is the empty dictionary until a turn commits the dictionary with
  the keys \<open>pre\<close>, \<open>fit\<close>, \<open>post\<close> and \<open>rebuild_triggered\<close>.
\<close>

datatype metrics_dict =
  NoMetrics
| TurnMetrics (pre: metrics) (fit: metrics) (post: metrics) (rebuild_triggered: bool)

record BobState =
  identity :: IdentityState
  affect_state :: AffectState
  integrity :: IntegrityState
  active_context :: "string list"
  open_threads :: "string list"
  conversation_summary :: string
  live_chat :: "message list"
  last_updated_utc :: "string option"
  turn_counter :: int
  context_metrics :: metrics_dict
  last_context_rebuild :: "string option"

text \<open>The nested dictionary \<open>BobState.to_dict\<close> builds: fixed keys as record fields.\<close>

record continuity_dict =
  c_active_context :: "string list"
  c_open_threads :: "string list"
  c_conversation_summary :: string
  c_live_chat :: "message list"
  c_integrity :: pydict

record meta_dict =
  mt_last_updated_utc :: "string option"
  mt_turn_counter :: int
  mt_context_metrics :: metrics_dict
  mt_last_context_rebuild :: "string option"

record state_dict =
  d_identity :: IdentityState
  d_affect_state :: pydict
  d_continuity :: continuity_dict
  d_meta :: meta_dict

definition to_dict :: "BobState \<Rightarrow> state_dict" where
  "to_dict s =
     \<lparr> d_identity = identity s,
       d_affect_state = AffectState_to_dict (affect_state s),
       d_continuity =
         \<lparr> c_active_context = active_context s,
           c_open_threads = open_threads s,
           c_conversation_summary = conversation_summary s,
           c_live_chat = live_chat s,
           c_integrity = IntegrityState_to_dict (integrity s) \<rparr>,
       d_meta =
         \<lparr> mt_last_updated_utc = last_updated_utc s,
           mt_turn_counter = turn_counter s,
           mt_context_metrics = context_metrics s,
           mt_last_context_rebuild = last_context_rebuild s \<rparr> \<rparr>"

text \<open>
  The state file holds a complete dump of a dictionary, or what is left of a dump that
  failed part-way.  \<open>_write\<close> opens the file for writing, which empties it, and dumps
  the dictionary; opening can raise (the file is then as before) and dumping can raise
  (the file then holds an incomplete dump).  What happens is decided outside the
  program: the parameter \<open>write_state\<close>.  With Python's parser of float literals these
  are the parameters of the host.
\<close>

datatype state_file = Dumped state_dict | Incomplete

datatype write_outcome = Written | OpenFailed exn | DumpFailed exn

record host =
  float_of_str :: "string \<Rightarrow> pyfloat option"
  write_state :: "state_dict \<Rightarrow> write_outcome"

text \<open>The store: the state object in memory and the state file.\<close>

record StateStore =
  st_state :: BobState
  st_file :: state_file

definition snapshot :: "StateStore \<Rightarrow> state_dict" where
  "snapshot st = to_dict (st_state st)"

text \<open>\<open>_write\<close>: \<open>Inl\<close> is the exception that leaves it.\<close>

definition write_file :: "host \<Rightarrow> StateStore \<Rightarrow> (exn + unit) \<times> StateStore" where
  "write_file hst st =
     (case write_state hst (to_dict (st_state st)) of
        Written \<Rightarrow> (Inr (), st\<lparr> st_file := Dumped (to_dict (st_state st)) \<rparr>)
      | OpenFailed e \<Rightarrow> (Inl e, st)
      | DumpFailed e \<Rightarrow> (Inl e, st\<lparr> st_file := Incomplete \<rparr>))"

text \<open>The keyword arguments of \<open>commit\<close>; an argument left out is \<open>None\<close>.\<close>

record commit_args =
  a_active_context :: "string list option"
  a_open_threads :: "string list option"
  a_affect_state :: "pydict option"
  a_integrity :: "pydict option"
  a_tone_active :: "string option"
  a_conversation_summary :: "string option"
  a_live_chat :: "message list option"
  a_context_metrics :: "metrics_dict option"
  a_last_context_rebuild :: "string option"

definition no_args :: commit_args where
  "no_args =
     \<lparr> a_active_context = None, a_open_threads = None, a_affect_state = None,
       a_integrity = None, a_tone_active = None, a_conversation_summary = None,
       a_live_chat = None, a_context_metrics = None, a_last_context_rebuild = None \<rparr>"

text \<open>
  \<open>now\<close> is what \<open>now_utc()\<close> returns when \<open>commit\<close> calls it.  The fields of the state
  object are assigned before \<open>_write\<close> is called; an exception of \<open>_write\<close> leaves
  \<open>commit\<close> with the state object already changed.
\<close>

definition commit ::
  "host \<Rightarrow> string \<Rightarrow> commit_args \<Rightarrow> StateStore \<Rightarrow> (exn + unit) \<times> StateStore"
where
  "commit hst now args st =
     (let s = st_state st;
          s = (case a_active_context args of None \<Rightarrow> s
               | Some v \<Rightarrow> s\<lparr> active_context := v \<rparr>);
          s = (case a_open_threads args of None \<Rightarrow> s
               | Some v \<Rightarrow> s\<lparr> open_threads := v \<rparr>);
          s = (case a_affect_state args of None \<Rightarrow> s
               | Some v \<Rightarrow> s\<lparr> affect_state := AffectState_from_dict (float_of_str hst) v \<rparr>);
          s = (case a_integrity args of None \<Rightarrow> s
               | Some v \<Rightarrow> s\<lparr> integrity := IntegrityState_from_dict v \<rparr>);
          s = (case a_tone_active args of None \<Rightarrow> s
               | Some v \<Rightarrow> s\<lparr> identity := (identity s)\<lparr> tone_active := v \<rparr> \<rparr>);
          s = (case a_conversation_summary args of None \<Rightarrow> s
               | Some v \<Rightarrow> s\<lparr> conversation_summary := v \<rparr>);
          s = (case a_live_chat args of None \<Rightarrow> s
               | Some v \<Rightarrow> s\<lparr> live_chat := v \<rparr>);
          s = (case a_context_metrics args of None \<Rightarrow> s
               | Some v \<Rightarrow> s\<lparr> context_metrics := v \<rparr>);
          s = (case a_last_context_rebuild args of None \<Rightarrow> s
               | Some v \<Rightarrow> s\<lparr> last_context_rebuild := Some v \<rparr>);
          s = s\<lparr> turn_counter := turn_counter s + 1 \<rparr>;
          s = s\<lparr> last_updated_utc := Some now \<rparr>
      in write_file hst (st\<lparr> st_state := s \<rparr>))"

text \<open>
  The state \<open>_load_or_init\<close> creates when there is no state file, and the store after
  its first write has succeeded.
\<close>

definition init_state :: "string \<Rightarrow> string \<Rightarrow> string \<Rightarrow> BobState" where
  "init_state sid dname now =
     \<lparr> identity =
         \<lparr> system_id = sid, display_name = dname, agent_name = dname, version = ''v1'',
           id_role = ''Magic playing homie'',
           core_directive = ''Maintain coherent reasoning, assist the user, and preserve continuity across turns.'',
           tone_baseline = ''curious, grounded, lightly irreverent'',
           tone_active = ''engaged'' \<rparr>,
       affect_state =
         \<lparr> curiosity = Fin (75 / 100), calm = Fin (6 / 10), confidence = Fin (55 / 100),
           tension = Fin (2 / 10), engagement = Fin (65 / 100) \<rparr>,
       integrity = \<lparr> last_turn_consistent = True, contradictions_detected = False \<rparr>,
       active_context = [],
       open_threads = [],
       conversation_summary = [],
       live_chat = [],
       last_updated_utc = Some now,
       turn_counter = 0,
       context_metrics = NoMetrics,
       last_context_rebuild = None \<rparr>"

definition init_store :: "string \<Rightarrow> string \<Rightarrow> string \<Rightarrow> StateStore" where
  "init_store sid dname now =
     \<lparr> st_state = init_state sid dname now,
       st_file = Dumped (to_dict (init_state sid dname now)) \<rparr>"

section \<open>orchestrator.py\<close>

record Session =
  session_id :: string
  s_turn_counter :: int
  tools_enabled :: bool
  tool_roots :: "string list"

text \<open>The fields of \<open>BobConfig\<close> the orchestrator reads.\<close>

record BobConfig =
  model_context_window_tokens :: int
  cfg_summary_target_tokens :: int
  cfg_live_chat_target_tokens :: int
  cfg_reserved_buffer_tokens :: int
  live_chat_retain_turns_after_rebuild :: int

definition from_config :: "OSS20BTokenizer \<Rightarrow> BobConfig \<Rightarrow> ContextWindowManager" where
  "from_config tk cfg =
     \<lparr> tokenizer = tk,
       budget = \<lparr> model_window_tokens = model_context_window_tokens cfg,
                  summary_target_tokens = cfg_summary_target_tokens cfg,
                  live_chat_target_tokens = cfg_live_chat_target_tokens cfg,
                  reserved_buffer_tokens = cfg_reserved_buffer_tokens cfg \<rparr> \<rparr>"

text \<open>JSON values, as \<open>json.loads\<close> returns them.\<close>

datatype json =
  JNull | JBool bool | JNum real | JStr string | JList "json list"
| JDict "(string \<times> json) list"

record payload =
  prior_active_context :: "string list"
  prior_open_threads :: "string list"
  p_user_input :: string
  p_assistant_output :: string
  stm_anchors :: "string list"

text \<open>
  What the orchestrator imports from outside the repository's sources: the prompt
  constants of \<open>bob.prompts\<close> and the \<open>json\<close> module.  \<open>json_loads\<close> is \<open>None\<close> where
  \<open>json.loads\<close> raises.
\<close>

record externals =
  SYSTEM_PROMPT :: string
  RESPOND_WINDOW_RULES :: string
  CONTINUITY_UPDATE_PROMPT :: string
  json_dumps :: "payload \<Rightarrow> string"
  json_loads :: "string \<Rightarrow> json option"

text \<open>
  A chat client with internal state \<open>'s\<close>.  \<open>chat_text\<close> returns a string or raises
  (\<open>Inl\<close>) an exception derived from \<open>Exception\<close>; \<open>chat_text_stream\<close> yields its fragments
  and then is exhausted or raises.
\<close>

record chat_request =
  req_messages :: "message list"
  req_temperature :: real
  req_max_tokens :: int
  req_timeout_s :: int

datatype stream_end = Exhausted | Raised exn

record 's ChatClient =
  chat_text :: "chat_request \<Rightarrow> 's \<Rightarrow> (exn + string) \<times> 's"
  chat_text_stream :: "chat_request \<Rightarrow> 's \<Rightarrow> (string list \<times> stream_end) \<times> 's"

text \<open>
  The orchestrator, with the host its state store runs on.
\<close>

record 's Orchestrator =
  cfg :: BobConfig
  context_window :: ContextWindowManager
  ext :: externals
  platform :: host
  local_llm :: "'s ChatClient"
  remote_llm :: "'s ChatClient"

text \<open>The request \<open>_summary_pass\<close> sends to the chat client.\<close>

definition summary_request :: "'s Orchestrator \<Rightarrow> string \<Rightarrow> string \<Rightarrow> chat_request" where
  "summary_request orc instruction source_text =
     (let user_payload = instruction @ [CHR 0x0A, CHR 0x0A] @ ''SOURCE:'' @ [CHR 0x0A]
                         @ source_text;
          base = count_buckets (context_window orc) (SYSTEM_PROMPT (ext orc)) [] [] []
                   user_payload;
          available = model_context_window_tokens (cfg orc) - m_used_without_reserve base
                      - cfg_reserved_buffer_tokens (cfg orc);
          max_tokens = max 256 (min 2000 (if available > 0 then available else 256))
      in \<lparr> req_messages = [\<lparr> role = ''system'', content = SYSTEM_PROMPT (ext orc) \<rparr>,
                            \<lparr> role = ''user'', content = user_payload \<rparr>],
           req_temperature = 2 / 10,
           req_max_tokens = max_tokens,
           req_timeout_s = 120 \<rparr>)"

text \<open>
  \<open>_summary_pass\<close>: the call and the \<open>.strip()\<close> of its result are inside \<open>try\<close>; any
  \<open>Exception\<close> makes the pass return \<open>source_text\<close>.
\<close>

definition summary_pass ::
  "'s Orchestrator \<Rightarrow> 's ChatClient \<Rightarrow> string \<Rightarrow> string \<Rightarrow> 's \<Rightarrow> (exn + string) \<times> 's"
where
  "summary_pass orc chat instruction source_text cs =
     (case chat_text chat (summary_request orc instruction source_text) cs of
        (Inr out, cs') \<Rightarrow> (Inr (py_strip out), cs')
      | (Inl e, cs') \<Rightarrow> (Inr source_text, cs'))"

definition coarse_prompt :: string where
  "coarse_prompt =
     ''Summarize the conversation neutrally. Include: goals discussed, decisions made, constraints, unresolved questions. ''
     @ ''No instructions, no speculation, no memory claims.''"

definition refined_prompt :: string where
  "refined_prompt =
     ''Refine this into a concise Conversation Summary for continuity. Keep neutral descriptive posture. ''
     @ ''Do not add facts not present.''"

definition rebuild_summary ::
  "'s Orchestrator \<Rightarrow> 's ChatClient \<Rightarrow> string \<Rightarrow> message list \<Rightarrow> 's \<Rightarrow> (exn + string) \<times> 's"
where
  "rebuild_summary orc chat prior_summary live_chat_msgs cs =
     (let transcript = render_chat_first_prompt prior_summary live_chat_msgs [] []
      in case summary_pass orc chat coarse_prompt transcript cs of
           (Inl e, cs1) \<Rightarrow> (Inl e, cs1)
         | (Inr coarse, cs1) \<Rightarrow>
             (case summary_pass orc chat refined_prompt coarse cs1 of
                (Inl e, cs2) \<Rightarrow> (Inl e, cs2)
              | (Inr refined, cs2) \<Rightarrow>
                  (let max_summary = max 256 (cfg_summary_target_tokens (cfg orc))
                   in (Inr (truncate_to_tokens (tokenizer (context_window orc))
                              (py_strip refined) max_summary), cs2))))"

text \<open>\<open>str.find\<close> and \<open>str.rfind\<close> of one character: the index, or \<open>-1\<close>.\<close>

definition py_find :: "string \<Rightarrow> char \<Rightarrow> int" where
  "py_find s c = (if c \<in> set s then int (length (takeWhile (\<lambda>x. x \<noteq> c) s)) else - 1)"

definition py_rfind :: "string \<Rightarrow> char \<Rightarrow> int" where
  "py_rfind s c =
     (if c \<in> set s then int (length s) - 1 - int (length (takeWhile (\<lambda>x. x \<noteq> c) (rev s)))
      else - 1)"

definition parse_continuity_json :: "externals \<Rightarrow> string \<Rightarrow> (string \<times> json) list option" where
  "parse_continuity_json ex text =
     (if text = [] then None
      else let start = py_find text (CHR ''{'');
               end = py_rfind text (CHR ''}'')
           in if start = - 1 \<or> end = - 1 \<or> end \<le> start then None
              else let snippet = take (nat (end + 1) - nat start) (drop (nat start) text)
                   in case json_loads ex snippet of
                        None \<Rightarrow> None
                      | Some (JDict d) \<Rightarrow> Some d
                      | Some _ \<Rightarrow> None)"

text \<open>
  The loop of \<open>_clean_continuity_list\<close>, with the list \<open>out\<close> built so far.
\<close>

fun clean_loop :: "string list \<Rightarrow> json list \<Rightarrow> int \<Rightarrow> string list" where
  "clean_loop out [] limit = out"
| "clean_loop out (item # rest) limit =
     (case item of
        JStr s \<Rightarrow>
          (let text = py_join '' '' (py_split (py_strip s))
           in if text = [] then clean_loop out rest limit
              else let text = (if length text > 140 then take 137 text @ ''...'' else text);
                       out = (if text \<notin> set out then out @ [text] else out)
                   in if int (length out) \<ge> limit then out
                      else clean_loop out rest limit)
      | _ \<Rightarrow> clean_loop out rest limit)"

definition clean_continuity_list :: "json option \<Rightarrow> int \<Rightarrow> string list" where
  "clean_continuity_list v limit =
     (case v of Some (JList items) \<Rightarrow> clean_loop [] items limit | _ \<Rightarrow> [])"

definition norm_str :: "string \<Rightarrow> string" where
  "norm_str text = py_join '' '' (py_split (py_lower (py_strip text)))"

text \<open>
  The two loops of \<open>_merge_open_threads\<close>, on the pair \<open>(kept, seen_norm)\<close>.
\<close>

fun merge_prior ::
  "string set \<Rightarrow> string list \<times> string set \<Rightarrow> string list \<Rightarrow> string list \<times> string set"
where
  "merge_prior resolved_norm (kept, seen_norm) [] = (kept, seen_norm)"
| "merge_prior resolved_norm (kept, seen_norm) (t # ts) =
     (let nt = norm_str t
      in if nt = [] \<or> nt \<in> resolved_norm then merge_prior resolved_norm (kept, seen_norm) ts
         else if nt \<in> seen_norm then merge_prior resolved_norm (kept, seen_norm) ts
         else merge_prior resolved_norm (kept @ [t], insert nt seen_norm) ts)"

fun merge_new ::
  "int \<Rightarrow> string list \<times> string set \<Rightarrow> string list \<Rightarrow> string list \<times> string set"
where
  "merge_new limit (kept, seen_norm) [] = (kept, seen_norm)"
| "merge_new limit (kept, seen_norm) (t # ts) =
     (let nt = norm_str t
      in if nt = [] \<or> nt \<in> seen_norm then merge_new limit (kept, seen_norm) ts
         else if int (length (kept @ [t])) \<ge> max 1 limit
              then (kept @ [t], insert nt seen_norm)
              else merge_new limit (kept @ [t], insert nt seen_norm) ts)"

definition merge_open_threads ::
  "string list \<Rightarrow> string list \<Rightarrow> string list \<Rightarrow> int \<Rightarrow> string list"
where
  "merge_open_threads prior_threads new_threads resolved_threads limit =
     (let resolved_norm = set (map norm_str resolved_threads);
          st = merge_prior resolved_norm ([], {}) prior_threads;
          st = merge_new limit st new_threads
      in take (nat (max 1 limit)) (fst st))"

text \<open>
  \<open>re.split(r"(?<=[?])\s+", s)\<close>: the string is cut at every maximal run of whitespace
  that directly follows a question mark; \<open>cur\<close> is the piece read so far.
\<close>

function split_after_q :: "string \<Rightarrow> string \<Rightarrow> string list" where
  "split_after_q cur [] = [cur]"
| "split_after_q cur (c # cs) =
     (if c = CHR ''?'' \<and> cs \<noteq> [] \<and> is_space (hd cs)
      then (cur @ [c]) # split_after_q [] (dropWhile is_space cs)
      else split_after_q (cur @ [c]) cs)"
  by pat_completeness auto
termination
  by (relation "measure (\<lambda>(cur, s). length s)")
     (auto simp: length_dropWhile_le less_Suc_eq_le)

fun collect_questions :: "string list \<Rightarrow> string list" where
  "collect_questions [] = []"
| "collect_questions (chunk # chunks) =
     (let chunk = py_strip chunk
      in if endswith chunk ''?'' then chunk # collect_questions chunks
         else collect_questions chunks)"

fun append_new :: "string list \<Rightarrow> string list \<Rightarrow> string list" where
  "append_new threads [] = threads"
| "append_new threads (q # qs) =
     (if q \<notin> set threads then append_new (threads @ [q]) qs else append_new threads qs)"

definition fallback_continuity :: "state_dict \<Rightarrow> string \<Rightarrow> string list \<times> string list" where
  "fallback_continuity state_before user_input =
     (let active = c_active_context (d_continuity state_before);
          threads = c_open_threads (d_continuity state_before);
          questions = collect_questions (split_after_q [] (py_strip (str_or user_input [])))
      in (active, append_new threads (take 3 questions)))"

text \<open>The request \<open>_update_continuity\<close> sends to the chat client.\<close>

definition continuity_request ::
  "'s Orchestrator \<Rightarrow> state_dict \<Rightarrow> string \<Rightarrow> string \<Rightarrow> chat_request"
where
  "continuity_request orc st_before user_input assistant_output =
     (let pl = \<lparr> prior_active_context = c_active_context (d_continuity st_before),
                   prior_open_threads = c_open_threads (d_continuity st_before),
                   p_user_input = user_input,
                   p_assistant_output = assistant_output,
                   stm_anchors = [] \<rparr>;
          prompt = CONTINUITY_UPDATE_PROMPT (ext orc) @ [CHR 0x0A, CHR 0x0A] @ ''INPUTS:''
                   @ [CHR 0x0A] @ json_dumps (ext orc) pl
      in \<lparr> req_messages = [\<lparr> role = ''system'', content = SYSTEM_PROMPT (ext orc) \<rparr>,
                            \<lparr> role = ''user'', content = prompt \<rparr>],
           req_temperature = 2 / 10,
           req_max_tokens = 500,
           req_timeout_s = 60 \<rparr>)"

definition update_continuity ::
  "'s Orchestrator \<Rightarrow> state_dict \<Rightarrow> string \<Rightarrow> string \<Rightarrow> 's ChatClient \<Rightarrow> 's
     \<Rightarrow> (string list \<times> string list) \<times> 's"
where
  "update_continuity orc st_before user_input assistant_output chat cs =
     (if py_strip (str_or assistant_output []) = []
      then ((c_active_context (d_continuity st_before),
             c_open_threads (d_continuity st_before)), cs)
      else
        case chat_text chat (continuity_request orc st_before user_input assistant_output) cs of
          (Inl e, cs') \<Rightarrow>
            ((c_active_context (d_continuity st_before),
              c_open_threads (d_continuity st_before)), cs')
        | (Inr out, cs') \<Rightarrow>
            (case parse_continuity_json (ext orc) (py_strip out) of
               None \<Rightarrow> (fallback_continuity st_before user_input, cs')
             | Some data \<Rightarrow>
                 if data = [] then (fallback_continuity st_before user_input, cs')
                 else
                   let active = clean_continuity_list (map_of data ''active_context'') 6;
                       threads = clean_continuity_list (map_of data ''open_threads'') 4;
                       resolved = clean_continuity_list (map_of data ''resolved_threads'') 4;
                       threads = merge_open_threads
                                   (c_open_threads (d_continuity st_before)) threads
                                   resolved 4
                   in if active = [] \<and> threads = []
                      then (fallback_continuity st_before user_input, cs')
                      else ((active, threads), cs')))"

text \<open>
  The audit log record of a turn, and the world a turn runs in: the session object,
  the state store, the audit log, the internal states of the two chat clients, and the
  number of times the clock has been read.  \<open>now_utc n\<close> is the text the \<open>n\<close>-th
  reading of the clock returns.  The logger's class is outside the sources: its
  \<open>append\<close> adds the record to the log.
\<close>

record TurnRecord =
  ts_utc :: string
  r_session_id :: string
  turn_number :: int
  r_user_input :: string
  final_output :: string
  think :: string
  tools :: "string list"
  memory_candidates :: "string list"
  state_before :: state_dict
  state_after :: state_dict

record 's world =
  w_session :: Session
  w_state :: StateStore
  w_log :: "TurnRecord list"
  w_local :: 's
  w_remote :: 's
  w_clock :: nat

definition put_chat :: "bool \<Rightarrow> 's \<Rightarrow> 's world \<Rightarrow> 's world" where
  "put_chat use_remote cs w = (if use_remote then w\<lparr> w_remote := cs \<rparr> else w\<lparr> w_local := cs \<rparr>)"

text \<open>
  The part of \<open>run_turn_stream\<close> before the response call: the summary, the live chat
  and whether a rebuild took place.
\<close>

definition maybe_rebuild ::
  "'s Orchestrator \<Rightarrow> 's ChatClient \<Rightarrow> metrics \<Rightarrow> string \<Rightarrow> message list \<Rightarrow> 's
     \<Rightarrow> (exn + string \<times> message list \<times> bool) \<times> 's"
where
  "maybe_rebuild orc chat pre_metrics summary live cs =
     (if m_live_chat_buffer pre_metrics > cfg_live_chat_target_tokens (cfg orc)
         \<or> m_pressure pre_metrics
      then (case rebuild_summary orc chat summary live cs of
              (Inl e, cs1) \<Rightarrow> (Inl e, cs1)
            | (Inr s, cs1) \<Rightarrow>
                (Inr (s, keep_last_turns live (live_chat_retain_turns_after_rebuild (cfg orc)),
                      True), cs1))
      else (Inr (summary, live, False), cs))"

text \<open>
  The part of \<open>run_turn_stream\<close> after the stream is drained: continuity update, commit
  and audit log record.  An exception of \<open>commit\<close> leaves the turn before the log record
  is appended.
\<close>

definition finish_turn ::
  "'s Orchestrator \<Rightarrow> (nat \<Rightarrow> string) \<Rightarrow> 's ChatClient \<Rightarrow> bool \<Rightarrow> string \<Rightarrow> state_dict
     \<Rightarrow> string \<Rightarrow> message list \<Rightarrow> bool \<Rightarrow> metrics \<Rightarrow> metrics \<Rightarrow> string \<Rightarrow> 's \<Rightarrow> 's world
     \<Rightarrow> (exn + unit) \<times> 's world"
where
  "finish_turn orc now_utc chat use_remote user_input st_before summary live rebuilt
       pre_metrics fit_metrics out_buf cs w =
     (let live_chat_after = live @ [\<lparr> role = ''user'', content = user_input \<rparr>,
                                    \<lparr> role = ''assistant'', content = py_strip out_buf \<rparr>];
          post_metrics = count_buckets (context_window orc) (SYSTEM_PROMPT (ext orc)) summary
                           live_chat_after [] [];
          upd = update_continuity orc st_before user_input out_buf chat cs;
          active = fst (fst upd);
          threads = snd (fst upd);
          cmetrics = TurnMetrics pre_metrics fit_metrics post_metrics rebuilt;
          rebuild_stamp = (if rebuilt then Some (now_utc (w_clock w))
                           else mt_last_context_rebuild (d_meta st_before));
          clk = (if rebuilt then Suc (w_clock w) else w_clock w);
          committed = commit (platform orc) (now_utc clk)
                        \<lparr> a_active_context = Some active,
                          a_open_threads = Some threads,
                          a_affect_state = None,
                          a_integrity = None,
                          a_tone_active = None,
                          a_conversation_summary = Some summary,
                          a_live_chat = Some live_chat_after,
                          a_context_metrics = Some cmetrics,
                          a_last_context_rebuild = rebuild_stamp \<rparr>
                        (w_state w);
          store = snd committed
      in case fst committed of
           Inl e \<Rightarrow>
             (Inl e, put_chat use_remote (snd upd) (w\<lparr> w_state := store, w_clock := Suc clk \<rparr>))
         | Inr u \<Rightarrow>
             (let st_after = snapshot store;
                  rec = \<lparr> ts_utc = now_utc (Suc clk),
                          r_session_id = session_id (w_session w),
                          turn_number = s_turn_counter (w_session w),
                          r_user_input = user_input,
                          final_output = py_strip out_buf,
                          think = [],
                          tools = [],
                          memory_candidates = [],
                          state_before = st_before,
                          state_after = st_after \<rparr>
              in (Inr (),
                  put_chat use_remote (snd upd)
                    (w\<lparr> w_state := store, w_log := w_log w @ [rec],
                       w_clock := Suc (Suc clk) \<rparr>))))"

text \<open>
  The part of \<open>run_turn_stream\<close> from the snapshot to the request of the response call:
  the summary, the fitted live chat, whether a rebuild took place, the metrics before
  and after fitting, and the request.
\<close>

definition begin_turn ::
  "'s Orchestrator \<Rightarrow> string \<Rightarrow> real \<Rightarrow> 's ChatClient \<Rightarrow> state_dict \<Rightarrow> 's
     \<Rightarrow> (exn + string \<times> message list \<times> bool \<times> metrics \<times> metrics \<times> chat_request) \<times> 's"
where
  "begin_turn orc user_input temperature chat st_before cs =
     (let summary = c_conversation_summary (d_continuity st_before);
          live = c_live_chat (d_continuity st_before);
          pre_metrics = count_buckets (context_window orc) (SYSTEM_PROMPT (ext orc)) summary
                          live [] user_input
      in case maybe_rebuild orc chat pre_metrics summary live cs of
           (Inl e, cs1) \<Rightarrow> (Inl e, cs1)
         | (Inr (summary, live, rebuilt), cs1) \<Rightarrow>
             (let fitted = fit_live_chat_to_budget (context_window orc)
                             (SYSTEM_PROMPT (ext orc)) summary (Some live) [] user_input;
                  live = fst fitted;
                  fit_metrics = snd fitted;
                  prompt_user = render_chat_first_prompt summary live user_input [];
                  req = \<lparr> req_messages =
                            [\<lparr> role = ''system'', content = SYSTEM_PROMPT (ext orc) \<rparr>,
                             \<lparr> role = ''user'',
                               content = RESPOND_WINDOW_RULES (ext orc) @ [CHR 0x0A, CHR 0x0A]
                                         @ prompt_user @ [CHR 0x0A, CHR 0x0A]
                                         @ ''Respond to the user.'' \<rparr>],
                          req_temperature = temperature,
                          req_max_tokens = 2000,
                          req_timeout_s = 180 \<rparr>
              in (Inr (summary, live, rebuilt, pre_metrics, fit_metrics, req), cs1)))"

text \<open>
  \<open>run_turn_stream\<close>: the fragments yielded to the caller, how the generator ended
  (\<open>Inl\<close>: an exception left it), and the world afterwards.
\<close>

definition run_turn_stream ::
  "'s Orchestrator \<Rightarrow> (nat \<Rightarrow> string) \<Rightarrow> string \<Rightarrow> real \<Rightarrow> bool \<Rightarrow> 's world
     \<Rightarrow> (string list \<times> (exn + unit)) \<times> 's world"
where
  "run_turn_stream orc now_utc user_input temperature use_remote w0 =
     (let w = w0\<lparr> w_session :=
                    (w_session w0)\<lparr> s_turn_counter := s_turn_counter (w_session w0) + 1 \<rparr> \<rparr>;
          chat = (if use_remote then remote_llm orc else local_llm orc);
          cs = (if use_remote then w_remote w else w_local w);
          st_before = snapshot (w_state w)
      in case begin_turn orc user_input temperature chat st_before cs of
           (Inl e, cs1) \<Rightarrow> (([], Inl e), put_chat use_remote cs1 w)
         | (Inr (summary, live, rebuilt, pre_metrics, fit_metrics, req), cs1) \<Rightarrow>
             (case chat_text_stream chat req cs1 of
                ((toks, Raised e), cs2) \<Rightarrow> ((toks, Inl e), put_chat use_remote cs2 w)
              | ((toks, Exhausted), cs2) \<Rightarrow>
                  (let done = finish_turn orc now_utc chat use_remote user_input st_before
                                summary live rebuilt pre_metrics fit_metrics (concat toks)
                                cs2 w
                   in ((toks, fst done), snd done))))"

section \<open>Lists as objects\<close>

text \<open>
  Where a claim is about which list object is mutated, lists live in a heap: a map from
  references to list values, with the next unused reference.
\<close>

record heap =
  h_lists :: "nat \<rightharpoonup> message list"
  h_next :: nat

definition wf_heap :: "heap \<Rightarrow> bool" where
  "wf_heap h = (\<forall>a. h_next h \<le> a \<longrightarrow> h_lists h a = None)"

text \<open>\<open>list(xs)\<close>: a new list object with the elements of \<open>xs\<close>.\<close>

definition list_new :: "message list \<Rightarrow> heap \<Rightarrow> nat \<times> heap" where
  "list_new xs h =
     (h_next h, h\<lparr> h_lists := (h_lists h)(h_next h \<mapsto> xs), h_next := Suc (h_next h) \<rparr>)"

text \<open>\<open>msgs.pop(0)\<close> on the list object at \<open>a\<close>.\<close>

definition list_pop0 :: "nat \<Rightarrow> heap \<Rightarrow> heap" where
  "list_pop0 a h =
     (case h_lists h a of
        Some (x # xs) \<Rightarrow> h\<lparr> h_lists := (h_lists h)(a \<mapsto> xs) \<rparr>
      | _ \<Rightarrow> h)"

definition list_val :: "heap \<Rightarrow> nat \<Rightarrow> message list" where
  "list_val h a = (case h_lists h a of None \<Rightarrow> [] | Some xs \<Rightarrow> xs)"

function evict_loop_obj ::
  "ContextWindowManager \<Rightarrow> string \<Rightarrow> string \<Rightarrow> string \<Rightarrow> string \<Rightarrow> nat \<Rightarrow> metrics \<Rightarrow> heap
     \<Rightarrow> metrics \<times> heap"
where
  "evict_loop_obj cw sb cs ti ui a mt h =
     (if list_val h a \<noteq> [] \<and> m_pressure mt
      then (let h' = list_pop0 a h
            in evict_loop_obj cw sb cs ti ui a (count_buckets cw sb cs (list_val h' a) ti ui) h')
      else (mt, h))"
  by pat_completeness auto
termination
  by (relation "measure (\<lambda>(cw, sb, cs, ti, ui, a, mt, h). length (list_val h a))")
     (auto simp: list_val_def list_pop0_def split: option.splits list.splits)

declare evict_loop_obj.simps [simp del]

text \<open>
  \<open>fit_live_chat_to_budget\<close> on list objects: the argument is \<open>None\<close> or a reference to
  the caller's list; the result is the reference of the working list \<open>msgs\<close>.
\<close>

definition fit_live_chat_to_budget_obj ::
  "ContextWindowManager \<Rightarrow> string \<Rightarrow> string \<Rightarrow> nat option \<Rightarrow> string \<Rightarrow> string \<Rightarrow> heap
     \<Rightarrow> (nat \<times> metrics) \<times> heap"
where
  "fit_live_chat_to_budget_obj cw system_block summary live_chat_messages
       tool_injections current_user_input h =
     (let src = (case live_chat_messages of None \<Rightarrow> [] | Some r \<Rightarrow> list_val h r);
          alloc = list_new src h;
          msgs = fst alloc;
          h1 = snd alloc;
          mt = count_buckets cw system_block summary (list_val h1 msgs)
                 tool_injections current_user_input;
          res = evict_loop_obj cw system_block summary tool_injections
                  current_user_input msgs mt h1
      in ((msgs, fst res), snd res))"

section \<open>testing.py\<close>

record FakeLLMResponsePlan =
  plan_think :: string
  plan_respond :: string

record call =
  kind :: string
  call_request :: chat_request

text \<open>\<open>FakeChatClient\<close>: its state is the list \<open>calls\<close>.\<close>

definition FakeChatClient :: "FakeLLMResponsePlan \<Rightarrow> (call list) ChatClient" where
  "FakeChatClient plan =
     \<lparr> chat_text = (\<lambda>req calls.
         (Inr (plan_think plan), calls @ [\<lparr> kind = ''chat_text'', call_request = req \<rparr>])),
       chat_text_stream = (\<lambda>req calls.
         ((map (\<lambda>ch. [ch]) (plan_respond plan), Exhausted),
          calls @ [\<lparr> kind = ''chat_text_stream'', call_request = req \<rparr>])) \<rparr>"

section \<open>Example values\<close>

text \<open>
  A client that raises on every \<open>chat_text\<close> call and whose stream raises after the
  fragments \<open>toks\<close>; its state counts the calls.
\<close>

definition failing_client :: "string list \<Rightarrow> nat ChatClient" where
  "failing_client toks =
     \<lparr> chat_text = (\<lambda>req n. (Inl (Exception ''timeout''), Suc n)),
       chat_text_stream = (\<lambda>req n. ((toks, Raised (Exception ''reset'')), Suc n)) \<rparr>"

text \<open>A tokenizer with one token per character.\<close>

definition char_tokenizer :: OSS20BTokenizer where
  "char_tokenizer = \<lparr> tok_encode = map of_char, tok_decode = map char_of \<rparr>"

definition test_cfg :: BobConfig where
  "test_cfg =
     \<lparr> model_context_window_tokens = 100000, cfg_summary_target_tokens = 20000,
       cfg_live_chat_target_tokens = 50000, cfg_reserved_buffer_tokens = 10000,
       live_chat_retain_turns_after_rebuild = 2 \<rparr>"

definition test_ext :: externals where
  "test_ext =
     \<lparr> SYSTEM_PROMPT = ''You are Bob.'', RESPOND_WINDOW_RULES = ''Rules.'',
       CONTINUITY_UPDATE_PROMPT = ''Update continuity.'',
       json_dumps = (\<lambda>p. ''{}''), json_loads = (\<lambda>s. None) \<rparr>"

text \<open>A host that parses no string as a float and on which every write succeeds.\<close>

definition test_host :: host where
  "test_host = \<lparr> float_of_str = (\<lambda>t. None), write_state = (\<lambda>d. Written) \<rparr>"

definition orc_with :: "OSS20BTokenizer \<Rightarrow> BobConfig \<Rightarrow> 's ChatClient \<Rightarrow> 's Orchestrator" where
  "orc_with tk c chat =
     \<lparr> cfg = c, context_window = from_config tk c, ext = test_ext, platform = test_host,
       local_llm = chat, remote_llm = chat \<rparr>"

definition test_orc :: "'s ChatClient \<Rightarrow> 's Orchestrator" where
  "test_orc chat = orc_with char_tokenizer test_cfg chat"

definition test_world :: "'s \<Rightarrow> 's world" where
  "test_world cs =
     \<lparr> w_session = \<lparr> session_id = ''s1'', s_turn_counter = 0, tools_enabled = False,
                     tool_roots = [] \<rparr>,
       w_state = init_store ''bob'' ''Bob'' ''t0'',
       w_log = [], w_local = cs, w_remote = cs, w_clock = 0 \<rparr>"

definition test_clock :: "nat \<Rightarrow> string" where
  "test_clock n = ''t'' @ replicate n (CHR ''+'')"

definition small_cw :: ContextWindowManager where
  "small_cw =
     \<lparr> tokenizer = char_tokenizer,
       budget = \<lparr> model_window_tokens = 80, summary_target_tokens = 20,
                  live_chat_target_tokens = 40, reserved_buffer_tokens = 0 \<rparr> \<rparr>"

definition msg_u :: "string \<Rightarrow> message" where
  "msg_u c = \<lparr> role = ''user'', content = c \<rparr>"

definition msg_a :: "string \<Rightarrow> message" where
  "msg_a c = \<lparr> role = ''assistant'', content = c \<rparr>"

text \<open>A finite float between 0.0 and 1.0; an affect state whose scalars are such.\<close>

definition unit_float :: "pyfloat \<Rightarrow> bool" where
  "unit_float f = (case f of Fin r \<Rightarrow> 0 \<le> r \<and> r \<le> 1 | _ \<Rightarrow> False)"

definition affect_in_range :: "AffectState \<Rightarrow> bool" where
  "affect_in_range a =
     (unit_float (curiosity a) \<and> unit_float (calm a) \<and> unit_float (confidence a)
      \<and> unit_float (tension a) \<and> unit_float (engagement a))"

definition affect_keys :: "string list" where
  "affect_keys = [''curiosity'', ''calm'', ''confidence'', ''tension'', ''engagement'']"

definition full_affect :: pydict where
  "full_affect =
     [''curiosity'' \<mapsto> PFloat (Fin 5), ''calm'' \<mapsto> PFloat (Fin (1 / 2)),
      ''confidence'' \<mapsto> PFloat (Fin (1 / 2)), ''tension'' \<mapsto> PFloat (Fin (1 / 2)),
      ''engagement'' \<mapsto> PFloat (Fin (1 / 2))]"

definition even_affect :: AffectState where
  "even_affect =
     \<lparr> curiosity = Fin (1 / 2), calm = Fin (1 / 2), confidence = Fin (1 / 2),
       tension = Fin (1 / 2), engagement = Fin (1 / 2) \<rparr>"

definition nan_args :: commit_args where
  "nan_args = no_args\<lparr> a_affect_state := Some [''curiosity'' \<mapsto> PFloat NaN] \<rparr>"

definition doubtful :: IntegrityState where
  "doubtful = \<lparr> last_turn_consistent = False, contradictions_detected = True \<rparr>"

definition test_args :: commit_args where
  "test_args =
     no_args\<lparr> a_open_threads := Some [''Where do we meet?''],
              a_affect_state := Some (AffectState_to_dict even_affect),
              a_integrity := Some (IntegrityState_to_dict doubtful) \<rparr>"











definition two_threads :: "string list" where
  "two_threads = [''Where do we meet?'', ''Book the  Room'']"

definition nojson_plan :: FakeLLMResponsePlan where
  "nojson_plan = \<lparr> plan_think = ''no json here'', plan_respond = ''ok'' \<rparr>"

definition nojson_orc :: "(call list) Orchestrator" where
  "nojson_orc = test_orc (FakeChatClient nojson_plan)"

definition prior_store :: StateStore where
  "prior_store =
     snd (commit test_host ''t1'' (no_args\<lparr> a_open_threads := Some [''What time is it?''] \<rparr>)
            (init_store ''bob'' ''Bob'' ''t0''))"

definition heap0 :: heap where
  "heap0 =
     \<lparr> h_lists = [0 \<mapsto> [msg_u ''aaaa'', msg_a ''bbbb'', msg_u ''cccc'']], h_next = 1 \<rparr>"

section \<open>Eviction\<close>

lemma evict_loop_suffix:
  "\<exists>k. fst (evict_loop cw sb cs ti ui msgs) = drop k msgs"
proof (induction msgs)
  case Nil
  show ?case by simp
next
  case (Cons m ms)
  show ?case
  proof (cases "m_pressure (count_buckets cw sb cs (m # ms) ti ui)")
    case True
    from Cons.IH obtain k where "fst (evict_loop cw sb cs ti ui ms) = drop k ms" ..
    then have "fst (evict_loop cw sb cs ti ui (m # ms)) = drop (Suc k) (m # ms)"
      using True by simp
    then show ?thesis ..
  next
    case False
    then have "fst (evict_loop cw sb cs ti ui (m # ms)) = drop 0 (m # ms)" by simp
    then show ?thesis ..
  qed
qed

lemma evict_loop_metrics:
  "snd (evict_loop cw sb cs ti ui msgs)
     = count_buckets cw sb cs (fst (evict_loop cw sb cs ti ui msgs)) ti ui"
  by (induction msgs) simp_all

lemma evict_loop_exit:
  "\<not> m_pressure (snd (evict_loop cw sb cs ti ui msgs))
     \<or> fst (evict_loop cw sb cs ti ui msgs) = []"
  by (induction msgs) simp_all

text \<open>
  C1.  For every budget, tokenizer, system block, summary, live-chat sequence, tool
  injections and user input, \<open>fit_live_chat_to_budget\<close> returns \<open>drop k\<close> of the input
  sequence for some \<open>k\<close> (a contiguous suffix, every retained turn unchanged and in its
  place) together with the metrics of that suffix, and in these metrics the pressure
  flag is false or the returned sequence is empty.  Called with \<open>None\<close> it returns the
  empty sequence.
\<close>

theorem fit_live_chat_to_budget_suffix:
  "(\<exists>k. fst (fit_live_chat_to_budget cw sb cs (Some msgs) ti ui) = drop k msgs
        \<and> snd (fit_live_chat_to_budget cw sb cs (Some msgs) ti ui)
            = count_buckets cw sb cs (drop k msgs) ti ui)
   \<and> (\<not> m_pressure (snd (fit_live_chat_to_budget cw sb cs (Some msgs) ti ui))
        \<or> fst (fit_live_chat_to_budget cw sb cs (Some msgs) ti ui) = [])
   \<and> fst (fit_live_chat_to_budget cw sb cs None ti ui) = []"
proof -
  obtain k where k: "fst (evict_loop cw sb cs ti ui msgs) = drop k msgs"
    using evict_loop_suffix by blast
  have "snd (evict_loop cw sb cs ti ui msgs) = count_buckets cw sb cs (drop k msgs) ti ui"
    using evict_loop_metrics [of cw sb cs ti ui msgs] k by simp
  then show ?thesis
    using k evict_loop_exit [of cw sb cs ti ui msgs]
    unfolding fit_live_chat_to_budget_def by auto
qed

text \<open>
  An instance with a window of 80 tokens and three turns: two turns are evicted, the
  third is returned and the pressure flag is false.
\<close>

theorem fit_live_chat_to_budget_suffix_witness:
  "(\<exists>k. fst (fit_live_chat_to_budget small_cw ''S'' []
              (Some [msg_u ''aaaa'', msg_a ''bbbb'', msg_u ''cccc'']) [] ''hi'')
          = drop k [msg_u ''aaaa'', msg_a ''bbbb'', msg_u ''cccc''])
   \<and> fst (fit_live_chat_to_budget small_cw ''S'' []
            (Some [msg_u ''aaaa'', msg_a ''bbbb'', msg_u ''cccc'']) [] ''hi'')
       = [msg_u ''cccc'']
   \<and> m_pressure (snd (fit_live_chat_to_budget small_cw ''S'' []
            (Some [msg_u ''aaaa'', msg_a ''bbbb'', msg_u ''cccc'']) [] ''hi'')) = False"
proof -
  have ev: "fit_live_chat_to_budget small_cw ''S'' []
              (Some [msg_u ''aaaa'', msg_a ''bbbb'', msg_u ''cccc'']) [] ''hi''
            = ([msg_u ''cccc''], count_buckets small_cw ''S'' [] [msg_u ''cccc''] [] ''hi'')"
    by code_simp
  have pr: "m_pressure (count_buckets small_cw ''S'' [] [msg_u ''cccc''] [] ''hi'') = False"
    by code_simp
  from fit_live_chat_to_budget_suffix
         [of small_cw "''S''" "[]" "[msg_u ''aaaa'', msg_a ''bbbb'', msg_u ''cccc'']" "[]" "''hi''"]
  obtain k where
    "fst (fit_live_chat_to_budget small_cw ''S'' []
            (Some [msg_u ''aaaa'', msg_a ''bbbb'', msg_u ''cccc'']) [] ''hi'')
       = drop k [msg_u ''aaaa'', msg_a ''bbbb'', msg_u ''cccc'']"
    by blast
  then show ?thesis using ev pr by auto
qed

section \<open>Retention after a rebuild\<close>

lemma keep_last_turns_drop:
  "keep_last_turns messages n = drop (length messages - nat (2 * max 1 n)) messages"
  unfolding keep_last_turns_def Let_def
  by (cases "n = 0") (auto simp: max_def mult.commute)

text \<open>
  C6, as stated: for \<open>n \<ge> 0\<close> at most \<open>2n\<close> entries are returned.  At \<open>n = 0\<close> the code
  computes \<open>max(1, int(turns or 1)) = 1\<close> and returns two entries.
\<close>

theorem keep_last_turns_zero_counterexample:
  "\<not> (int (length (keep_last_turns [msg_u ''a'', msg_a ''b''] 0)) \<le> 2 * 0)"
  by (simp add: keep_last_turns_def)

text \<open>
  C6, amended.  For every message list and every integer \<open>n\<close>, \<open>keep_last_turns\<close>
  returns the last \<open>2 * max 1 n\<close> entries of the list (the whole list when it is not
  longer), each entry unchanged and in the original order; so for \<open>n \<ge> 1\<close> at most
  \<open>2n\<close> entries, and for \<open>n \<le> 0\<close> at most two.
\<close>

theorem keep_last_turns_suffix:
  "keep_last_turns messages n = drop (length messages - nat (2 * max 1 n)) messages
   \<and> int (length (keep_last_turns messages n)) \<le> 2 * max 1 n
   \<and> (1 \<le> n \<longrightarrow> int (length (keep_last_turns messages n)) \<le> 2 * n)"
proof -
  have d: "keep_last_turns messages n = drop (length messages - nat (2 * max 1 n)) messages"
    by (rule keep_last_turns_drop)
  have l: "int (length (keep_last_turns messages n)) \<le> 2 * max 1 n"
  proof -
    have "length (drop (length messages - nat (2 * max 1 n)) messages) \<le> nat (2 * max 1 n)"
      by simp
    then show ?thesis unfolding d by linarith
  qed
  have "1 \<le> n \<Longrightarrow> max 1 n = n" by simp
  with d l show ?thesis by auto
qed

theorem keep_last_turns_suffix_witness:
  "(1::int) \<le> 1
   \<and> keep_last_turns [msg_u ''a'', msg_a ''b'', msg_u ''c''] 1 = [msg_a ''b'', msg_u ''c'']
   \<and> int (length (keep_last_turns [msg_u ''a'', msg_a ''b'', msg_u ''c''] 1)) \<le> 2 * 1"
  using keep_last_turns_suffix [of "[msg_u ''a'', msg_a ''b'', msg_u ''c'']" 1]
  by simp

section \<open>Commit and snapshot\<close>

lemma write_file_state: "st_state (snd (write_file pf st)) = st_state st"
  by (simp add: write_file_def split: write_outcome.split)

lemma commit_state:
  "st_state (snd (commit pf now args st)) =
     (st_state st)\<lparr>
        active_context :=
          (case a_active_context args of None \<Rightarrow> active_context (st_state st) | Some v \<Rightarrow> v),
        open_threads :=
          (case a_open_threads args of None \<Rightarrow> open_threads (st_state st) | Some v \<Rightarrow> v),
        affect_state :=
          (case a_affect_state args of None \<Rightarrow> affect_state (st_state st)
           | Some v \<Rightarrow> AffectState_from_dict (float_of_str pf) v),
        integrity :=
          (case a_integrity args of None \<Rightarrow> integrity (st_state st)
           | Some v \<Rightarrow> IntegrityState_from_dict v),
        identity :=
          (case a_tone_active args of None \<Rightarrow> identity (st_state st)
           | Some v \<Rightarrow> (identity (st_state st))\<lparr> tone_active := v \<rparr>),
        conversation_summary :=
          (case a_conversation_summary args of None \<Rightarrow> conversation_summary (st_state st)
           | Some v \<Rightarrow> v),
        live_chat :=
          (case a_live_chat args of None \<Rightarrow> live_chat (st_state st) | Some v \<Rightarrow> v),
        context_metrics :=
          (case a_context_metrics args of None \<Rightarrow> context_metrics (st_state st)
           | Some v \<Rightarrow> v),
        last_context_rebuild :=
          (case a_last_context_rebuild args of None \<Rightarrow> last_context_rebuild (st_state st)
           | Some v \<Rightarrow> Some v),
        turn_counter := turn_counter (st_state st) + 1,
        last_updated_utc := Some now \<rparr>"
  by (cases "a_active_context args"; cases "a_open_threads args"; cases "a_affect_state args";
      cases "a_integrity args"; cases "a_tone_active args"; cases "a_conversation_summary args";
      cases "a_live_chat args"; cases "a_context_metrics args";
      cases "a_last_context_rebuild args";
      simp add: commit_def write_file_state Let_def)

lemma commit_written:
  "write_state pf (to_dict (st_state (snd (commit pf now args st)))) = Written
     \<Longrightarrow> fst (commit pf now args st) = Inr ()
         \<and> st_file (snd (commit pf now args st))
             = Dumped (snapshot (snd (commit pf now args st)))"
  by (simp add: commit_def write_file_def Let_def snapshot_def split: write_outcome.splits)

text \<open>What \<open>_clamp01\<close> makes of a float.\<close>

lemma clamp01_float:
  "clamp01 fos (PFloat f) d =
     (case f of
        Fin r \<Rightarrow> Fin (max 0 (min 1 r))
      | PosInf \<Rightarrow> Fin 1
      | NegInf \<Rightarrow> Fin 0
      | NaN \<Rightarrow> NaN)"
  by (cases f) (simp_all add: clamp01_def py_float_def max_def min_def)

lemma clamp01_unit: "unit_float f \<Longrightarrow> clamp01 fos (PFloat f) d = f"
  by (cases f) (simp_all add: clamp01_float unit_float_def max_def min_def)

lemma AffectState_roundtrip:
  assumes "affect_in_range a"
  shows "AffectState_from_dict fos (AffectState_to_dict a) = (a :: AffectState)"
  using assms
  by (simp add: affect_in_range_def AffectState_from_dict_def AffectState_to_dict_def
        dict_get_def clamp01_unit)

lemma IntegrityState_roundtrip:
  "IntegrityState_from_dict (IntegrityState_to_dict i) = (i :: IntegrityState)"
  by (simp add: IntegrityState_from_dict_def IntegrityState_to_dict_def dict_get_default_def
        py_bool_def)

lemma affect_entry:
  assumes "k \<in> set affect_keys" and "v k = Some (PFloat f)"
  shows "AffectState_to_dict (AffectState_from_dict fos v) k
           = Some (PFloat (clamp01 fos (PFloat f) d))"
proof -
  have g: "dict_get v k = PFloat f"
    using assms(2) by (simp add: dict_get_def)
  from assms(1) consider "k = ''curiosity''" | "k = ''calm''" | "k = ''confidence''"
    | "k = ''tension''" | "k = ''engagement''"
    unfolding affect_keys_def by fastforce
  then show ?thesis
  proof cases
    case 1
    with g show ?thesis
      by (simp add: AffectState_to_dict_def AffectState_from_dict_def clamp01_float)
  next
    case 2
    with g show ?thesis
      by (simp add: AffectState_to_dict_def AffectState_from_dict_def clamp01_float)
  next
    case 3
    with g show ?thesis
      by (simp add: AffectState_to_dict_def AffectState_from_dict_def clamp01_float)
  next
    case 4
    with g show ?thesis
      by (simp add: AffectState_to_dict_def AffectState_from_dict_def clamp01_float)
  next
    case 5
    with g show ?thesis
      by (simp add: AffectState_to_dict_def AffectState_from_dict_def clamp01_float)
  qed
qed

text \<open>
  C2, as stated: the snapshot after \<open>commit\<close> shows exactly the value passed for every
  field passed.  For \<open>affect_state\<close> the value passed goes through
  \<open>AffectState.from_dict\<close>: a dictionary with all five keys whose \<open>curiosity\<close> is 5.0 is
  stored with \<open>curiosity\<close> 1.0, so the snapshot differs from what was passed.
\<close>

theorem commit_affect_counterexample:
  "\<not> (d_affect_state
         (snapshot (snd (commit test_host ''t1'' (no_args\<lparr> a_affect_state := Some full_affect \<rparr>)
            (init_store ''bob'' ''Bob'' ''t0''))))
       = full_affect)"
proof
  assume "d_affect_state
            (snapshot (snd (commit test_host ''t1''
               (no_args\<lparr> a_affect_state := Some full_affect \<rparr>)
               (init_store ''bob'' ''Bob'' ''t0''))))
          = full_affect"
  then have "d_affect_state
               (snapshot (snd (commit test_host ''t1''
                  (no_args\<lparr> a_affect_state := Some full_affect \<rparr>)
                  (init_store ''bob'' ''Bob'' ''t0'')))) ''curiosity''
             = full_affect ''curiosity''"
    by simp
  then show False
    by (simp add: snapshot_def to_dict_def commit_state no_args_def full_affect_def
          AffectState_to_dict_def AffectState_from_dict_def dict_get_def clamp01_float)
qed

text \<open>
  C2, amended.  For every call to \<open>commit\<close> with any subset of its optional fields,
  whether or not the write of the state file succeeds, in the snapshot that follows:
  \<open>active_context\<close>, \<open>open_threads\<close>, \<open>conversation_summary\<close>, \<open>live_chat\<close>,
  \<open>context_metrics\<close>, \<open>last_context_rebuild\<close> and the identity's \<open>tone_active\<close> hold the
  value passed when one is passed and their previous value otherwise (the rest of the
  identity is unchanged); \<open>affect_state\<close> and \<open>integrity\<close> hold their previous value when
  not passed and otherwise \<open>AffectState.from_dict\<close> and \<open>IntegrityState.from_dict\<close> of
  the dictionary passed.  In particular a float entry of \<open>affect_state\<close> is stored as
  0.0 when it is below 0.0, as 1.0 when it is above 1.0 and as it is otherwise, so that
  a NaN is stored as NaN; and the dictionary of an affect state with all scalars
  between 0.0 and 1.0, or of an integrity state, is shown as passed.  \<open>turn_counter\<close> is
  incremented by exactly one and \<open>last_updated_utc\<close> is the time read by \<open>commit\<close>.
  Equality of floats is identity of the value (Python's \<open>==\<close> is false on NaN).
\<close>

theorem commit_snapshot:
  "c_active_context (d_continuity (snapshot (snd (commit pf now args st))))
     = (case a_active_context args of Some v \<Rightarrow> v
        | None \<Rightarrow> c_active_context (d_continuity (snapshot st)))
   \<and> c_open_threads (d_continuity (snapshot (snd (commit pf now args st))))
     = (case a_open_threads args of Some v \<Rightarrow> v
        | None \<Rightarrow> c_open_threads (d_continuity (snapshot st)))
   \<and> c_conversation_summary (d_continuity (snapshot (snd (commit pf now args st))))
     = (case a_conversation_summary args of Some v \<Rightarrow> v
        | None \<Rightarrow> c_conversation_summary (d_continuity (snapshot st)))
   \<and> c_live_chat (d_continuity (snapshot (snd (commit pf now args st))))
     = (case a_live_chat args of Some v \<Rightarrow> v
        | None \<Rightarrow> c_live_chat (d_continuity (snapshot st)))
   \<and> mt_context_metrics (d_meta (snapshot (snd (commit pf now args st))))
     = (case a_context_metrics args of Some v \<Rightarrow> v
        | None \<Rightarrow> mt_context_metrics (d_meta (snapshot st)))
   \<and> mt_last_context_rebuild (d_meta (snapshot (snd (commit pf now args st))))
     = (case a_last_context_rebuild args of Some v \<Rightarrow> Some v
        | None \<Rightarrow> mt_last_context_rebuild (d_meta (snapshot st)))
   \<and> d_identity (snapshot (snd (commit pf now args st)))
     = (case a_tone_active args of Some v \<Rightarrow> (d_identity (snapshot st))\<lparr> tone_active := v \<rparr>
        | None \<Rightarrow> d_identity (snapshot st))
   \<and> d_affect_state (snapshot (snd (commit pf now args st)))
     = (case a_affect_state args of
          Some v \<Rightarrow> AffectState_to_dict (AffectState_from_dict (float_of_str pf) v)
        | None \<Rightarrow> d_affect_state (snapshot st))
   \<and> c_integrity (d_continuity (snapshot (snd (commit pf now args st))))
     = (case a_integrity args of Some v \<Rightarrow> IntegrityState_to_dict (IntegrityState_from_dict v)
        | None \<Rightarrow> c_integrity (d_continuity (snapshot st)))
   \<and> (\<forall>v k f. a_affect_state args = Some v \<and> k \<in> set affect_keys \<and> v k = Some (PFloat f)
          \<longrightarrow> d_affect_state (snapshot (snd (commit pf now args st))) k
              = Some (PFloat (case f of Fin r \<Rightarrow> Fin (max 0 (min 1 r)) | PosInf \<Rightarrow> Fin 1
                              | NegInf \<Rightarrow> Fin 0 | NaN \<Rightarrow> NaN)))
   \<and> (\<forall>a. affect_in_range a \<and> a_affect_state args = Some (AffectState_to_dict a)
          \<longrightarrow> d_affect_state (snapshot (snd (commit pf now args st))) = AffectState_to_dict a)
   \<and> (\<forall>i. a_integrity args = Some (IntegrityState_to_dict i)
          \<longrightarrow> c_integrity (d_continuity (snapshot (snd (commit pf now args st))))
              = IntegrityState_to_dict i)
   \<and> mt_turn_counter (d_meta (snapshot (snd (commit pf now args st))))
     = mt_turn_counter (d_meta (snapshot st)) + 1
   \<and> mt_last_updated_utc (d_meta (snapshot (snd (commit pf now args st)))) = Some now"
proof (intro conjI allI impI, goal_cases)
  case (10 v k f)
  then have h: "a_affect_state args = Some v" "k \<in> set affect_keys" "v k = Some (PFloat f)"
    by simp_all
  have "AffectState_to_dict (AffectState_from_dict (float_of_str pf) v) k
          = Some (PFloat (clamp01 (float_of_str pf) (PFloat f) (Fin 0)))"
    using h(2,3) by (rule affect_entry)
  then show ?case
    by (simp add: h(1) clamp01_float snapshot_def to_dict_def commit_state)
next
  case (11 a)
  then show ?case
    by (simp add: AffectState_roundtrip snapshot_def to_dict_def commit_state)
next
  case (12 i)
  then show ?case
    by (simp add: IntegrityState_roundtrip snapshot_def to_dict_def commit_state)
qed (simp_all add: snapshot_def to_dict_def commit_state split: option.split)

theorem commit_snapshot_witness:
  "affect_in_range even_affect
   \<and> a_affect_state test_args = Some (AffectState_to_dict even_affect)
   \<and> d_affect_state
         (snapshot (snd (commit test_host ''t1'' test_args (init_store ''bob'' ''Bob'' ''t0''))))
       = AffectState_to_dict even_affect
   \<and> a_integrity test_args = Some (IntegrityState_to_dict doubtful)
   \<and> c_integrity (d_continuity
         (snapshot (snd (commit test_host ''t1'' test_args (init_store ''bob'' ''Bob'' ''t0'')))))
       = IntegrityState_to_dict doubtful
   \<and> c_open_threads (d_continuity
         (snapshot (snd (commit test_host ''t1'' test_args (init_store ''bob'' ''Bob'' ''t0'')))))
       = [''Where do we meet?'']
   \<and> c_active_context (d_continuity
         (snapshot (snd (commit test_host ''t1'' test_args (init_store ''bob'' ''Bob'' ''t0'')))))
       = []
   \<and> mt_turn_counter (d_meta
         (snapshot (snd (commit test_host ''t1'' test_args (init_store ''bob'' ''Bob'' ''t0'')))))
       = 1
   \<and> mt_last_updated_utc (d_meta
         (snapshot (snd (commit test_host ''t1'' test_args (init_store ''bob'' ''Bob'' ''t0'')))))
       = Some ''t1''
   \<and> a_affect_state nan_args = Some [''curiosity'' \<mapsto> PFloat NaN]
   \<and> ''curiosity'' \<in> set affect_keys
   \<and> d_affect_state
         (snapshot (snd (commit test_host ''t1'' nan_args (init_store ''bob'' ''Bob'' ''t0''))))
         ''curiosity''
       = Some (PFloat NaN)"
proof -
  let ?s0 = "init_store ''bob'' ''Bob'' ''t0''"
  have r: "affect_in_range even_affect"
    by (simp add: affect_in_range_def even_affect_def unit_float_def)
  have a: "a_affect_state test_args = Some (AffectState_to_dict even_affect)"
    by (simp add: test_args_def)
  have i: "a_integrity test_args = Some (IntegrityState_to_dict doubtful)"
    by (simp add: test_args_def)
  have o: "a_open_threads test_args = Some [''Where do we meet?'']"
    by (simp add: test_args_def no_args_def)
  have c: "a_active_context test_args = None"
    by (simp add: test_args_def no_args_def)
  have s0: "c_active_context (d_continuity (snapshot ?s0)) = []"
    "mt_turn_counter (d_meta (snapshot ?s0)) = 0"
    by (simp_all add: snapshot_def to_dict_def init_store_def init_state_def)
  have n: "a_affect_state nan_args = Some [''curiosity'' \<mapsto> PFloat NaN]"
    by (simp add: nan_args_def)
  have k: "''curiosity'' \<in> set affect_keys"
    by (simp add: affect_keys_def)
  have nv: "[''curiosity'' \<mapsto> PFloat NaN] ''curiosity'' = Some (PFloat NaN)"
    by simp
  note T = commit_snapshot [of test_host "''t1''" test_args ?s0]
  note N = commit_snapshot [of test_host "''t1''" nan_args ?s0]
  have t1: "c_active_context (d_continuity (snapshot (snd (commit test_host ''t1'' test_args ?s0))))
              = []"
    using T [THEN conjunct1] by (simp add: c s0)
  have t2: "c_open_threads (d_continuity (snapshot (snd (commit test_host ''t1'' test_args ?s0))))
              = [''Where do we meet?'']"
    using T [THEN conjunct2, THEN conjunct1] by (simp add: o)
  have t11: "\<forall>a. affect_in_range a \<and> a_affect_state test_args = Some (AffectState_to_dict a)
               \<longrightarrow> d_affect_state (snapshot (snd (commit test_host ''t1'' test_args ?s0)))
                   = AffectState_to_dict a"
    by (rule T [THEN conjunct2, THEN conjunct2, THEN conjunct2, THEN conjunct2, THEN conjunct2,
                THEN conjunct2, THEN conjunct2, THEN conjunct2, THEN conjunct2, THEN conjunct2,
                THEN conjunct1])
  have t12: "\<forall>i. a_integrity test_args = Some (IntegrityState_to_dict i)
               \<longrightarrow> c_integrity (d_continuity
                     (snapshot (snd (commit test_host ''t1'' test_args ?s0))))
                   = IntegrityState_to_dict i"
    by (rule T [THEN conjunct2, THEN conjunct2, THEN conjunct2, THEN conjunct2, THEN conjunct2,
                THEN conjunct2, THEN conjunct2, THEN conjunct2, THEN conjunct2, THEN conjunct2,
                THEN conjunct2, THEN conjunct1])
  have t13: "mt_turn_counter (d_meta (snapshot (snd (commit test_host ''t1'' test_args ?s0))))
               = 1"
    using T [THEN conjunct2, THEN conjunct2, THEN conjunct2, THEN conjunct2, THEN conjunct2,
             THEN conjunct2, THEN conjunct2, THEN conjunct2, THEN conjunct2, THEN conjunct2,
             THEN conjunct2, THEN conjunct2, THEN conjunct1]
    by (simp add: s0)
  have t14: "mt_last_updated_utc (d_meta (snapshot (snd (commit test_host ''t1'' test_args ?s0))))
               = Some ''t1''"
    by (rule T [THEN conjunct2, THEN conjunct2, THEN conjunct2, THEN conjunct2, THEN conjunct2,
                THEN conjunct2, THEN conjunct2, THEN conjunct2, THEN conjunct2, THEN conjunct2,
                THEN conjunct2, THEN conjunct2, THEN conjunct2])
  have n10: "\<forall>v k f. a_affect_state nan_args = Some v \<and> k \<in> set affect_keys
                 \<and> v k = Some (PFloat f)
               \<longrightarrow> d_affect_state (snapshot (snd (commit test_host ''t1'' nan_args ?s0))) k
                   = Some (PFloat (case f of Fin r \<Rightarrow> Fin (max 0 (min 1 r)) | PosInf \<Rightarrow> Fin 1
                                   | NegInf \<Rightarrow> Fin 0 | NaN \<Rightarrow> NaN))"
    by (rule N [THEN conjunct2, THEN conjunct2, THEN conjunct2, THEN conjunct2, THEN conjunct2,
                THEN conjunct2, THEN conjunct2, THEN conjunct2, THEN conjunct2, THEN conjunct1])
  have t8: "d_affect_state (snapshot (snd (commit test_host ''t1'' test_args ?s0)))
              = AffectState_to_dict even_affect"
    using t11 r a by blast
  have t9: "c_integrity (d_continuity (snapshot (snd (commit test_host ''t1'' test_args ?s0))))
              = IntegrityState_to_dict doubtful"
    using t12 i by blast
  have "d_affect_state (snapshot (snd (commit test_host ''t1'' nan_args ?s0))) ''curiosity''
          = Some (PFloat (case NaN of Fin r \<Rightarrow> Fin (max 0 (min 1 r)) | PosInf \<Rightarrow> Fin 1
                          | NegInf \<Rightarrow> Fin 0 | NaN \<Rightarrow> NaN))"
    using n10 [rule_format, of "[''curiosity'' \<mapsto> PFloat NaN]" "''curiosity''" NaN] n k nv
    by blast
  then have n1: "d_affect_state (snapshot (snd (commit test_host ''t1'' nan_args ?s0)))
                   ''curiosity'' = Some (PFloat NaN)"
    by simp
  show ?thesis
    by (intro conjI r a t8 i t9 t2 t1 t13 t14 n k n1)
qed

section \<open>Summary rebuild\<close>

lemma summary_pass_total:
  "\<exists>s. fst (summary_pass orc chat instr src cs) = Inr s"
  by (auto simp: summary_pass_def split: prod.splits sum.splits)


lemma rebuild_summary_form:
  "\<exists>refined. fst (rebuild_summary orc chat prior live cs)
      = Inr (truncate_to_tokens (tokenizer (context_window orc)) (py_strip refined)
               (max 256 (cfg_summary_target_tokens (cfg orc))))"
proof -
  let ?t = "render_chat_first_prompt prior live [] []"
  obtain r1 c1 where p1: "summary_pass orc chat coarse_prompt ?t cs = (r1, c1)"
    by (cases "summary_pass orc chat coarse_prompt ?t cs")
  from summary_pass_total [of orc chat coarse_prompt ?t cs] p1
  obtain coarse where r1: "r1 = Inr coarse" by auto
  obtain r2 c2 where p2: "summary_pass orc chat refined_prompt coarse c1 = (r2, c2)"
    by (cases "summary_pass orc chat refined_prompt coarse c1")
  from summary_pass_total [of orc chat refined_prompt coarse c1] p2
  obtain refined where r2: "r2 = Inr refined" by auto
  show ?thesis
    by (rule exI [of _ refined]) (simp add: rebuild_summary_def Let_def p1 r1 p2 r2)
qed









lemma orc_with_fields:
  "tokenizer (context_window (orc_with tk c chat)) = tk"
  "cfg (orc_with tk c chat) = c"
  "local_llm (orc_with tk c chat) = chat"
  "ext (orc_with tk c chat) = test_ext"
  "platform (orc_with tk c chat) = test_host"
  by (simp_all add: orc_with_def from_config_def)






section \<open>Token ceiling of the rebuilt summary\<close>


lemma summary_pass_fake:
  "fst (summary_pass orc (FakeChatClient plan) instr src cs) = Inr (py_strip (plan_think plan))"
  by (simp add: summary_pass_def FakeChatClient_def)

















section \<open>Merging open threads\<close>

lemma merge_prior_keeps_all:
  assumes "\<forall>t \<in> set ts. norm_str t \<noteq> []" and "distinct (map norm_str ts)"
    and "norm_str ` set ts \<inter> seen = {}"
  shows "merge_prior {} (kept, seen) ts = (kept @ ts, seen \<union> norm_str ` set ts)"
  using assms
proof (induction ts arbitrary: kept seen)
  case Nil
  show ?case by simp
next
  case (Cons t ts)
  have a: "norm_str t \<noteq> []" "norm_str t \<notin> seen" using Cons.prems by auto
  have b: "\<forall>t \<in> set ts. norm_str t \<noteq> []" "distinct (map norm_str ts)"
    "norm_str ` set ts \<inter> insert (norm_str t) seen = {}"
    using Cons.prems by auto
  show ?case
    using a Cons.IH [OF b, of "kept @ [t]"] by (simp add: Let_def)
qed

text \<open>
  C9, as stated: the prior entries are non-empty strings, at most 4, pairwise distinct
  under normalisation.  An entry of whitespace only is a non-empty string; its
  normalisation is empty and the merge drops it.
\<close>

theorem merge_open_threads_blank_counterexample:
  "'' '' \<noteq> [] \<and> length ['' ''] \<le> 4 \<and> distinct (map norm_str ['' ''])
   \<and> merge_open_threads ['' ''] [] [] 4 \<noteq> ['' '']"
  by code_simp

text \<open>
  C9, amended.  For every prior state whose \<open>open_threads\<close> entries each contain a
  character that is not whitespace (their normalisation is non-empty), are at most 4
  in number and are pairwise distinct under the whitespace-collapsing lowercase
  normalisation, merging a structured update with \<open>open_threads = []\<close> and
  \<open>resolved_threads = []\<close> yields the prior \<open>open_threads\<close>, in order.
\<close>

theorem merge_open_threads_noop:
  assumes "\<forall>t \<in> set prior. norm_str t \<noteq> []" and "length prior \<le> 4"
    and "distinct (map norm_str prior)"
  shows "merge_open_threads prior [] [] 4 = prior"
  using assms merge_prior_keeps_all [of prior "{}" "[]"]
  by (simp add: merge_open_threads_def Let_def)

theorem merge_open_threads_noop_witness:
  "norm_str ''Where do we meet?'' = ''where do we meet?''
   \<and> norm_str ''Book the  Room'' = ''book the room''
   \<and> merge_open_threads two_threads [] [] 4 = two_threads"
proof -
  have n: "norm_str ''Where do we meet?'' = ''where do we meet?''"
    "norm_str ''Book the  Room'' = ''book the room''"
    by code_simp+
  have h: "\<forall>t \<in> set two_threads. norm_str t \<noteq> []" "length two_threads \<le> 4"
    "distinct (map norm_str two_threads)"
    by (simp_all add: two_threads_def n)
  from merge_open_threads_noop [OF h] n show ?thesis by simp
qed

section \<open>A turn whose response stream raises\<close>

lemma maybe_rebuild_total:
  "\<exists>x. fst (maybe_rebuild orc chat pm summary live cs) = Inr x"
proof -
  obtain refined where
    "fst (rebuild_summary orc chat summary live cs)
       = Inr (truncate_to_tokens (tokenizer (context_window orc)) (py_strip refined)
                (max 256 (cfg_summary_target_tokens (cfg orc))))"
    using rebuild_summary_form [of orc chat summary live cs] by blast
  then show ?thesis
    by (cases "rebuild_summary orc chat summary live cs")
       (auto simp: maybe_rebuild_def)
qed

lemma begin_turn_total:
  "\<exists>x. fst (begin_turn orc ui temp chat sb cs) = Inr x"
proof -
  let ?pm = "count_buckets (context_window orc) (SYSTEM_PROMPT (ext orc))
               (c_conversation_summary (d_continuity sb)) (c_live_chat (d_continuity sb)) [] ui"
  let ?mr = "maybe_rebuild orc chat ?pm (c_conversation_summary (d_continuity sb))
               (c_live_chat (d_continuity sb)) cs"
  obtain x where "fst ?mr = Inr x"
    using maybe_rebuild_total [of orc chat ?pm "c_conversation_summary (d_continuity sb)"
            "c_live_chat (d_continuity sb)" cs]
    by blast
  then show ?thesis
    by (cases ?mr; cases x) (auto simp: begin_turn_def Let_def)
qed

lemma run_turn_stream_raised:
  assumes "begin_turn orc ui temp (if use_remote then remote_llm orc else local_llm orc)
             (snapshot (w_state w)) (if use_remote then w_remote w else w_local w)
           = (Inr (summary, live, rebuilt, pm, fm, req), cs1)"
    and "chat_text_stream (if use_remote then remote_llm orc else local_llm orc) req cs1
           = ((toks, Raised e), cs2)"
  shows "run_turn_stream orc clock ui temp use_remote w
           = ((toks, Inl e),
              put_chat use_remote cs2
                (w\<lparr> w_session := (w_session w)\<lparr> s_turn_counter := s_turn_counter (w_session w) + 1 \<rparr> \<rparr>))"
  using assms by (cases use_remote) (simp_all add: run_turn_stream_def Let_def)

lemma run_turn_stream_exhausted:
  assumes "begin_turn orc ui temp (if use_remote then remote_llm orc else local_llm orc)
             (snapshot (w_state w)) (if use_remote then w_remote w else w_local w)
           = (Inr (summary, live, rebuilt, pm, fm, req), cs1)"
    and "chat_text_stream (if use_remote then remote_llm orc else local_llm orc) req cs1
           = ((toks, Exhausted), cs2)"
  shows "run_turn_stream orc clock ui temp use_remote w
           = ((toks,
               fst (finish_turn orc clock (if use_remote then remote_llm orc else local_llm orc)
                      use_remote ui (snapshot (w_state w)) summary live rebuilt pm fm
                      (concat toks) cs2
                      (w\<lparr> w_session :=
                           (w_session w)\<lparr> s_turn_counter := s_turn_counter (w_session w) + 1 \<rparr> \<rparr>))),
              snd (finish_turn orc clock (if use_remote then remote_llm orc else local_llm orc)
                     use_remote ui (snapshot (w_state w)) summary live rebuilt pm fm
                     (concat toks) cs2
                     (w\<lparr> w_session :=
                          (w_session w)\<lparr> s_turn_counter := s_turn_counter (w_session w) + 1 \<rparr> \<rparr>)))"
  using assms by (cases use_remote) (simp_all add: run_turn_stream_def Let_def)

lemma put_chat_keeps:
  "w_state (put_chat b cs w) = w_state w" "w_log (put_chat b cs w) = w_log w"
  "w_clock (put_chat b cs w) = w_clock w" "w_session (put_chat b cs w) = w_session w"
  by (simp_all add: put_chat_def)

lemma finish_turn_open_threads:
  "open_threads (st_state (w_state
      (snd (finish_turn orc clock chat b ui sb summary live rebuilt pm fm out cs w))))
     = snd (fst (update_continuity orc sb ui out chat cs))"
  by (simp add: finish_turn_def Let_def put_chat_keeps commit_state split: sum.split)

lemma finish_turn_written:
  assumes "\<forall>d. write_state (platform orc) d = Written"
  shows "fst (finish_turn orc clock chat b ui sb summary live rebuilt pm fm out cs w) = Inr ()"
proof -
  have "\<And>now args st. fst (commit (platform orc) now args st) = Inr ()"
    using assms commit_written by blast
  then show ?thesis by (simp add: finish_turn_def Let_def)
qed

text \<open>
  C4.  If the streaming response call of a turn raises after yielding the fragments
  \<open>toks\<close>, the generator yields \<open>toks\<close> and ends with that exception, and \<open>commit\<close> is not
  invoked for the turn: the state store (the state in memory and the state file) is
  the store from before the turn, so its snapshot, with \<open>turn_counter\<close>, \<open>live_chat\<close>,
  \<open>conversation_summary\<close>, \<open>active_context\<close> and \<open>open_threads\<close>, equals the snapshot taken
  at turn start, and the audit log is unchanged.
\<close>

theorem run_turn_stream_no_commit_on_raise:
  assumes "begin_turn orc ui temp (if use_remote then remote_llm orc else local_llm orc)
             (snapshot (w_state w)) (if use_remote then w_remote w else w_local w)
           = (Inr (summary, live, rebuilt, pm, fm, req), cs1)"
    and "chat_text_stream (if use_remote then remote_llm orc else local_llm orc) req cs1
           = ((toks, Raised e), cs2)"
  shows "fst (run_turn_stream orc clock ui temp use_remote w) = (toks, Inl e)
         \<and> w_state (snd (run_turn_stream orc clock ui temp use_remote w)) = w_state w
         \<and> snapshot (w_state (snd (run_turn_stream orc clock ui temp use_remote w)))
             = snapshot (w_state w)
         \<and> w_log (snd (run_turn_stream orc clock ui temp use_remote w)) = w_log w"
  unfolding run_turn_stream_raised [OF assms]
  by (simp add: put_chat_keeps)

theorem run_turn_stream_no_commit_on_raise_witness:
  "fst (run_turn_stream (test_orc (failing_client [''He'', ''llo''])) test_clock ''hi'' (7 / 10)
          False (test_world 0))
     = ([''He'', ''llo''], Inl (Exception ''reset''))
   \<and> w_state (snd (run_turn_stream (test_orc (failing_client [''He'', ''llo''])) test_clock
                        ''hi'' (7 / 10) False (test_world 0)))
       = w_state (test_world (0 :: nat))
   \<and> w_log (snd (run_turn_stream (test_orc (failing_client [''He'', ''llo''])) test_clock
                      ''hi'' (7 / 10) False (test_world 0)))
       = []"
proof -
  let ?orc = "test_orc (failing_client [''He'', ''llo''])"
  let ?w = "test_world (0 :: nat)"
  let ?b = "begin_turn ?orc ''hi'' (7 / 10) (local_llm ?orc) (snapshot (w_state ?w)) (w_local ?w)"
  obtain x where x: "fst ?b = Inr x"
    using begin_turn_total [of ?orc "''hi''" "7 / 10" "local_llm ?orc" "snapshot (w_state ?w)"
            "w_local ?w"]
    by blast
  obtain summary live rebuilt pm fm req where xs: "x = (summary, live, rebuilt, pm, fm, req)"
    by (cases x)
  obtain cs1 where b: "?b = (Inr (summary, live, rebuilt, pm, fm, req), cs1)"
    using x xs by (cases ?b) simp
  have b2: "begin_turn ?orc ''hi'' (7 / 10) (if False then remote_llm ?orc else local_llm ?orc)
              (snapshot (w_state ?w)) (if False then w_remote ?w else w_local ?w)
            = (Inr (summary, live, rebuilt, pm, fm, req), cs1)"
    using b by simp
  have s2: "chat_text_stream (if False then remote_llm ?orc else local_llm ?orc) req cs1
            = (([''He'', ''llo''], Raised (Exception ''reset'')), Suc cs1)"
    by (simp add: test_orc_def orc_with_fields failing_client_def)
  have l: "w_log ?w = []" by (simp add: test_world_def)
  from run_turn_stream_no_commit_on_raise [OF b2 s2, of test_clock] l
  show ?thesis by simp
qed

text \<open>
  On a host where every write of the state file succeeds, whatever exception ends the
  generator, store and audit log are unchanged.
\<close>

lemma run_turn_stream_exception_keeps_state:
  assumes "snd (fst (run_turn_stream orc clock ui temp use_remote w)) = Inl e"
    and "\<forall>d. write_state (platform orc) d = Written"
  shows "w_state (snd (run_turn_stream orc clock ui temp use_remote w)) = w_state w
         \<and> w_log (snd (run_turn_stream orc clock ui temp use_remote w)) = w_log w"
  using assms(1) finish_turn_written [OF assms(2)]
  by (auto simp: run_turn_stream_def Let_def put_chat_keeps
           split: prod.splits sum.splits stream_end.splits)

section \<open>Continuity fallback\<close>

lemma append_new_extends:
  "\<exists>added. append_new threads qs = threads @ added \<and> set added \<subseteq> set qs
       \<and> length added \<le> length qs \<and> distinct added \<and> set added \<inter> set threads = {}"
proof (induction qs arbitrary: threads)
  case Nil
  show ?case by simp
next
  case (Cons q qs)
  show ?case
  proof (cases "q \<in> set threads")
    case True
    from Cons.IH [of threads] obtain added where
      "append_new threads qs = threads @ added" "set added \<subseteq> set qs"
      "length added \<le> length qs" "distinct added" "set added \<inter> set threads = {}"
      by blast
    with True show ?thesis by (intro exI [of _ added]) auto
  next
    case False
    from Cons.IH [of "threads @ [q]"] obtain added where
      a: "append_new (threads @ [q]) qs = (threads @ [q]) @ added" "set added \<subseteq> set qs"
      "length added \<le> length qs" "distinct added"
      "set added \<inter> set (threads @ [q]) = {}"
      by blast
    with False show ?thesis by (intro exI [of _ "q # added"]) auto
  qed
qed

lemma collect_questions_endswith:
  "\<forall>q \<in> set (collect_questions chunks). endswith q ''?''"
  by (induction chunks) (simp_all add: Let_def)

lemma fallback_continuity_form:
  "fst (fallback_continuity sb ui) = c_active_context (d_continuity sb)
   \<and> (\<exists>added. snd (fallback_continuity sb ui) = c_open_threads (d_continuity sb) @ added
         \<and> length added \<le> 3 \<and> distinct added
         \<and> set added \<inter> set (c_open_threads (d_continuity sb)) = {}
         \<and> (\<forall>q \<in> set added. endswith q ''?''))"
proof -
  let ?qs = "take 3 (collect_questions (split_after_q [] (py_strip (str_or ui []))))"
  obtain added where a: "append_new (c_open_threads (d_continuity sb)) ?qs
                           = c_open_threads (d_continuity sb) @ added"
    "set added \<subseteq> set ?qs" "length added \<le> length ?qs" "distinct added"
    "set added \<inter> set (c_open_threads (d_continuity sb)) = {}"
    using append_new_extends [of "c_open_threads (d_continuity sb)" ?qs] by blast
  have "\<forall>q \<in> set ?qs. endswith q ''?''"
    using collect_questions_endswith by (meson in_set_takeD)
  with a(2) have e: "\<forall>q \<in> set added. endswith q ''?''" by blast
  have l: "length added \<le> 3" using a(3) by simp
  show ?thesis
    using a(1,4,5) e l by (auto simp: fallback_continuity_def Let_def)
qed

lemma questions_example:
  "collect_questions (split_after_q []
      (py_strip (str_or ''What time is it? Also, where are we meeting?'' [])))
     = [''What time is it?'', ''Also, where are we meeting?'']"
  by code_simp

lemma fallback_continuity_example:
  "snd (fallback_continuity sb ''What time is it? Also, where are we meeting?'')
     = c_open_threads (d_continuity sb)
       @ filter (\<lambda>q. q \<notin> set (c_open_threads (d_continuity sb)))
           [''What time is it?'', ''Also, where are we meeting?'']"
  by (simp add: fallback_continuity_def Let_def questions_example)

lemma parse_no_json: "parse_continuity_json ex ''no json here'' = None"
  by (simp add: parse_continuity_json_def py_find_def Let_def)

lemma update_continuity_parse_none:
  assumes "py_strip (str_or out []) \<noteq> []"
    and "fst (chat_text chat (continuity_request orc sb ui out) cs) = Inr raw"
    and "parse_continuity_json (ext orc) (py_strip raw) = None"
  shows "fst (update_continuity orc sb ui out chat cs) = fallback_continuity sb ui"
  using assms
  by (cases "chat_text chat (continuity_request orc sb ui out) cs")
     (simp add: update_continuity_def)

text \<open>
  C5.  When the assistant output is not blank and the text returned by the
  continuity-update call contains no parseable JSON object (the text
  \<open>no json here\<close> is such a text), the continuity update returns the prior
  \<open>active_context\<close> unchanged and the prior \<open>open_threads\<close> followed by at most 3 new
  entries, each ending with a question mark, pairwise distinct and none of them
  already among the prior entries; for the user input
  \<open>What time is it? Also, where are we meeting?\<close> the new entries are the two sentences
  of the input, without those already present.
\<close>

theorem update_continuity_fallback:
  assumes "py_strip (str_or assistant_output []) \<noteq> []"
    and "fst (chat_text chat (continuity_request orc sb ui assistant_output) cs) = Inr raw"
    and "parse_continuity_json (ext orc) (py_strip raw) = None"
  shows "parse_continuity_json (ext orc) ''no json here'' = None
         \<and> fst (fst (update_continuity orc sb ui assistant_output chat cs))
             = c_active_context (d_continuity sb)
         \<and> (\<exists>added. snd (fst (update_continuity orc sb ui assistant_output chat cs))
                        = c_open_threads (d_continuity sb) @ added
               \<and> length added \<le> 3 \<and> distinct added
               \<and> set added \<inter> set (c_open_threads (d_continuity sb)) = {}
               \<and> (\<forall>q \<in> set added. endswith q ''?''))
         \<and> (ui = ''What time is it? Also, where are we meeting?''
              \<longrightarrow> snd (fst (update_continuity orc sb ui assistant_output chat cs))
                  = c_open_threads (d_continuity sb)
                    @ filter (\<lambda>q. q \<notin> set (c_open_threads (d_continuity sb)))
                        [''What time is it?'', ''Also, where are we meeting?''])"
  unfolding update_continuity_parse_none [OF assms]
  using fallback_continuity_form [of sb ui] fallback_continuity_example [of sb] parse_no_json
  by blast


lemma snapshot_open_threads:
  "c_open_threads (d_continuity (snapshot st)) = open_threads (st_state st)"
  "c_active_context (d_continuity (snapshot st)) = active_context (st_state st)"
  by (simp_all add: snapshot_def to_dict_def)

lemma strip_no_json: "py_strip ''no json here'' = ''no json here''"
  by code_simp

lemma strip_ok: "py_strip ''ok'' = ''ok''"
  by code_simp

theorem update_continuity_fallback_witness:
  "py_strip (str_or ''ok'' []) \<noteq> []
   \<and> fst (chat_text (FakeChatClient nojson_plan)
            (continuity_request nojson_orc (snapshot prior_store)
               ''What time is it? Also, where are we meeting?'' ''ok'') [])
       = Inr ''no json here''
   \<and> parse_continuity_json (ext nojson_orc) (py_strip ''no json here'') = None
   \<and> snd (fst (update_continuity nojson_orc (snapshot prior_store)
                   ''What time is it? Also, where are we meeting?'' ''ok''
                   (FakeChatClient nojson_plan) []))
       = [''What time is it?'', ''Also, where are we meeting?'']"
proof -
  have h1: "py_strip (str_or ''ok'' []) \<noteq> []"
    by (simp add: str_or_def strip_ok)
  have h2: "fst (chat_text (FakeChatClient nojson_plan)
              (continuity_request nojson_orc (snapshot prior_store)
                 ''What time is it? Also, where are we meeting?'' ''ok'') [])
            = Inr ''no json here''"
    by (simp add: FakeChatClient_def nojson_plan_def)
  have h3: "parse_continuity_json (ext nojson_orc) (py_strip ''no json here'') = None"
    by (simp add: strip_no_json parse_continuity_json_def py_find_def Let_def)
  have p: "c_open_threads (d_continuity (snapshot prior_store)) = [''What time is it?'']"
    by (simp add: snapshot_open_threads prior_store_def commit_state no_args_def)
  from update_continuity_fallback [OF h1 h2 h3] p
  have "snd (fst (update_continuity nojson_orc (snapshot prior_store)
                   ''What time is it? Also, where are we meeting?'' ''ok''
                   (FakeChatClient nojson_plan) []))
       = [''What time is it?'', ''Also, where are we meeting?'']"
    by simp
  with h1 h2 h3 show ?thesis by blast
qed

section \<open>Number of open threads\<close>

text \<open>The structured path: the merged list has at most \<open>max 1 limit\<close> entries.\<close>

lemma merge_open_threads_capped:
  "length (merge_open_threads prior new resolved limit) \<le> nat (max 1 limit)"
  by (simp add: merge_open_threads_def Let_def)

lemma concat_singletons: "concat (map (\<lambda>ch. [ch]) s) = s"
  by (induction s) simp_all

lemma fake_turn_open_threads:
  assumes "local_llm orc = FakeChatClient plan"
    and "parse_continuity_json (ext orc) (py_strip (plan_think plan)) = None"
    and "py_strip (plan_respond plan) \<noteq> []"
  shows "open_threads (st_state (w_state (snd (run_turn_stream orc clock ui temp False w))))
           = snd (fallback_continuity (snapshot (w_state w)) ui)"
proof -
  let ?chat = "FakeChatClient plan"
  let ?b = "begin_turn orc ui temp ?chat (snapshot (w_state w)) (w_local w)"
  obtain x where x: "fst ?b = Inr x"
    using begin_turn_total [of orc ui temp ?chat "snapshot (w_state w)" "w_local w"] by blast
  obtain summary live rebuilt pm fm req where xs: "x = (summary, live, rebuilt, pm, fm, req)"
    by (cases x)
  obtain cs1 where b: "?b = (Inr (summary, live, rebuilt, pm, fm, req), cs1)"
    using x xs by (cases ?b) simp
  have b2: "begin_turn orc ui temp (if False then remote_llm orc else local_llm orc)
              (snapshot (w_state w)) (if False then w_remote w else w_local w)
            = (Inr (summary, live, rebuilt, pm, fm, req), cs1)"
    using b assms(1) by simp
  have s2: "chat_text_stream (if False then remote_llm orc else local_llm orc) req cs1
            = ((map (\<lambda>ch. [ch]) (plan_respond plan), Exhausted),
               cs1 @ [\<lparr> kind = ''chat_text_stream'', call_request = req \<rparr>])"
    using assms(1) by (simp add: FakeChatClient_def)
  have ne: "py_strip (str_or (plan_respond plan) []) \<noteq> []"
    using assms(3) by (simp add: str_or_def)
  have ct: "\<And>rq c. fst (chat_text ?chat rq c) = Inr (plan_think plan)"
    by (simp add: FakeChatClient_def)
  show ?thesis
    unfolding run_turn_stream_exhausted [OF b2 s2] snd_conv finish_turn_open_threads
      concat_singletons
    using update_continuity_parse_none [OF ne ct assms(2)] assms(1)
    by simp
qed

text \<open>On a host where every write succeeds, a turn with \<open>FakeChatClient\<close> is committed.\<close>

lemma fake_turn_commits:
  assumes "local_llm orc = FakeChatClient plan"
    and "\<forall>d. write_state (platform orc) d = Written"
  shows "snd (fst (run_turn_stream orc clock ui temp False w)) = Inr ()"
proof -
  let ?chat = "FakeChatClient plan"
  let ?b = "begin_turn orc ui temp ?chat (snapshot (w_state w)) (w_local w)"
  obtain x where x: "fst ?b = Inr x"
    using begin_turn_total [of orc ui temp ?chat "snapshot (w_state w)" "w_local w"] by blast
  obtain summary live rebuilt pm fm req where xs: "x = (summary, live, rebuilt, pm, fm, req)"
    by (cases x)
  obtain cs1 where b: "?b = (Inr (summary, live, rebuilt, pm, fm, req), cs1)"
    using x xs by (cases ?b) simp
  have b2: "begin_turn orc ui temp (if False then remote_llm orc else local_llm orc)
              (snapshot (w_state w)) (if False then w_remote w else w_local w)
            = (Inr (summary, live, rebuilt, pm, fm, req), cs1)"
    using b assms(1) by simp
  have s2: "chat_text_stream (if False then remote_llm orc else local_llm orc) req cs1
            = ((map (\<lambda>ch. [ch]) (plan_respond plan), Exhausted),
               cs1 @ [\<lparr> kind = ''chat_text_stream'', call_request = req \<rparr>])"
    using assms(1) by (simp add: FakeChatClient_def)
  show ?thesis
    unfolding run_turn_stream_exhausted [OF b2 s2]
    by (simp add: finish_turn_written [OF assms(2)])
qed

lemma questions_abc:
  "take 3 (collect_questions (split_after_q [] (py_strip (str_or ''A? B? C?'' []))))
     = [''A?'', ''B?'', ''C?'']"
  "take 3 (collect_questions (split_after_q [] (py_strip (str_or ''D? E? F?'' []))))
     = [''D?'', ''E?'', ''F?'']"
  by code_simp+

text \<open>
  C7 states that every state reached by committed turns has at most 4 open threads.
  Two committed turns that take the parse-failure fallback, each with three questions
  in the user input, starting from the initial state, end with six open threads: the
  fallback appends without the cap that \<open>_merge_open_threads\<close> applies.  (Both turns are
  committed: \<open>fake_turn_commits\<close>.)
\<close>

theorem open_threads_six_after_two_fallbacks:
  "open_threads (st_state (w_state
      (snd (run_turn_stream nojson_orc test_clock ''D? E? F?'' (7 / 10) False
         (snd (run_turn_stream nojson_orc test_clock ''A? B? C?'' (7 / 10) False
            (test_world [])))))))
     = [''A?'', ''B?'', ''C?'', ''D?'', ''E?'', ''F?'']"
proof -
  have a: "local_llm nojson_orc = FakeChatClient nojson_plan"
    by (simp add: nojson_orc_def test_orc_def orc_with_fields)
  have p: "parse_continuity_json (ext nojson_orc) (py_strip (plan_think nojson_plan)) = None"
    by (simp add: nojson_plan_def strip_no_json parse_continuity_json_def py_find_def Let_def)
  have r: "py_strip (plan_respond nojson_plan) \<noteq> []"
    by (simp add: nojson_plan_def strip_ok)
  have i: "open_threads (st_state (w_state (test_world ([] :: call list)))) = []"
    by (simp add: test_world_def init_store_def init_state_def)
  show ?thesis
    unfolding fake_turn_open_threads [OF a p r]
    by (simp add: fallback_continuity_def Let_def snapshot_open_threads
          fake_turn_open_threads [OF a p r] questions_abc i)
qed

section \<open>The caller's list\<close>

lemma list_pop0_other: "a \<noteq> r \<Longrightarrow> h_lists (list_pop0 a h) r = h_lists h r"
  by (simp add: list_pop0_def split: option.splits list.splits)

lemma evict_loop_obj_frame:
  "a \<noteq> r \<Longrightarrow> h_lists (snd (evict_loop_obj cw sb cs ti ui a mt h)) r = h_lists h r"
proof (induction cw sb cs ti ui a mt h rule: evict_loop_obj.induct)
  case (1 cw sb cs ti ui a mt h)
  show ?case
  proof (cases "list_val h a \<noteq> [] \<and> m_pressure mt")
    case True
    then show ?thesis
      using "1.IH" [OF True refl] "1.prems"
      by (subst evict_loop_obj.simps) (simp add: Let_def list_pop0_other)
  next
    case False
    then show ?thesis by (subst evict_loop_obj.simps) auto
  qed
qed

lemma evict_loop_obj_refines:
  "h_lists h a = Some xs \<Longrightarrow> mt = count_buckets cw sb cs xs ti ui
     \<Longrightarrow> (list_val (snd (evict_loop_obj cw sb cs ti ui a mt h)) a,
          fst (evict_loop_obj cw sb cs ti ui a mt h))
         = evict_loop cw sb cs ti ui xs"
proof (induction xs arbitrary: h mt)
  case Nil
  then show ?case
    by (subst (1 2) evict_loop_obj.simps) (simp add: list_val_def)
next
  case (Cons x xs)
  show ?case
  proof (cases "m_pressure mt")
    case True
    have p: "h_lists (list_pop0 a h) a = Some xs"
      using Cons.prems(1) by (simp add: list_pop0_def)
    have v: "list_val (list_pop0 a h) a = xs" using p by (simp add: list_val_def)
    have n: "list_val h a \<noteq> []" using Cons.prems(1) by (simp add: list_val_def)
    from Cons.IH [OF p refl] True n v Cons.prems(2)
    show ?thesis
      by (subst (1 2) evict_loop_obj.simps) (simp add: Let_def)
  next
    case False
    then show ?thesis
      using Cons.prems by (subst (1 2) evict_loop_obj.simps) (simp add: list_val_def)
  qed
qed

text \<open>
  C10.  \<open>fit_live_chat_to_budget\<close> does not mutate its \<open>live_chat_messages\<close> argument:
  in every well-formed heap where the argument refers to a list, after the call that
  list object holds the same elements in the same order; the working list is a new
  object, no other list object changes, and the new object holds the result computed
  on values.
\<close>

theorem fit_live_chat_to_budget_keeps_argument:
  assumes "wf_heap h" and "h_lists h r = Some xs"
  shows "h_lists (snd (fit_live_chat_to_budget_obj cw sb cs (Some r) ti ui h)) r = Some xs
         \<and> fst (fst (fit_live_chat_to_budget_obj cw sb cs (Some r) ti ui h)) \<noteq> r
         \<and> (\<forall>r'. r' \<noteq> fst (fst (fit_live_chat_to_budget_obj cw sb cs (Some r) ti ui h))
                \<longrightarrow> h_lists (snd (fit_live_chat_to_budget_obj cw sb cs (Some r) ti ui h)) r'
                    = h_lists h r')
         \<and> (list_val (snd (fit_live_chat_to_budget_obj cw sb cs (Some r) ti ui h))
                (fst (fst (fit_live_chat_to_budget_obj cw sb cs (Some r) ti ui h))),
              snd (fst (fit_live_chat_to_budget_obj cw sb cs (Some r) ti ui h)))
             = fit_live_chat_to_budget cw sb cs (Some xs) ti ui"
proof -
  let ?h1 = "snd (list_new xs h)"
  let ?a = "h_next h"
  have lt: "r < h_next h"
    using assms by (auto simp: wf_heap_def intro: leI)
  then have ne: "?a \<noteq> r" by simp
  have v: "list_val h r = xs" using assms(2) by (simp add: list_val_def)
  have h1a: "h_lists ?h1 ?a = Some xs" by (simp add: list_new_def)
  have h1o: "\<And>r'. r' \<noteq> ?a \<Longrightarrow> h_lists ?h1 r' = h_lists h r'" by (simp add: list_new_def)
  have v1: "list_val ?h1 ?a = xs" using h1a by (simp add: list_val_def)
  have res: "fit_live_chat_to_budget_obj cw sb cs (Some r) ti ui h
               = ((?a, fst (evict_loop_obj cw sb cs ti ui ?a (count_buckets cw sb cs xs ti ui) ?h1)),
                  snd (evict_loop_obj cw sb cs ti ui ?a (count_buckets cw sb cs xs ti ui) ?h1))"
    using assms(2) by (simp add: fit_live_chat_to_budget_obj_def Let_def list_new_def list_val_def)
  have fr: "\<And>r'. r' \<noteq> ?a \<Longrightarrow>
              h_lists (snd (evict_loop_obj cw sb cs ti ui ?a (count_buckets cw sb cs xs ti ui) ?h1)) r'
                = h_lists h r'"
    using evict_loop_obj_frame [of ?a _ cw sb cs ti ui "count_buckets cw sb cs xs ti ui" ?h1] h1o
    by (metis)
  have rf: "(list_val (snd (evict_loop_obj cw sb cs ti ui ?a (count_buckets cw sb cs xs ti ui) ?h1)) ?a,
             fst (evict_loop_obj cw sb cs ti ui ?a (count_buckets cw sb cs xs ti ui) ?h1))
            = evict_loop cw sb cs ti ui xs"
    by (rule evict_loop_obj_refines [OF h1a refl])
  show ?thesis
    unfolding res using ne fr [of r] fr rf assms(2)
    by (simp add: fit_live_chat_to_budget_def)
qed

theorem fit_live_chat_to_budget_keeps_argument_witness:
  "wf_heap heap0
   \<and> h_lists heap0 0 = Some [msg_u ''aaaa'', msg_a ''bbbb'', msg_u ''cccc'']
   \<and> h_lists (snd (fit_live_chat_to_budget_obj small_cw ''S'' [] (Some 0) [] ''hi'' heap0)) 0
       = Some [msg_u ''aaaa'', msg_a ''bbbb'', msg_u ''cccc'']
   \<and> list_val (snd (fit_live_chat_to_budget_obj small_cw ''S'' [] (Some 0) [] ''hi'' heap0))
         (fst (fst (fit_live_chat_to_budget_obj small_cw ''S'' [] (Some 0) [] ''hi'' heap0)))
       = [msg_u ''cccc'']"
proof -
  have w: "wf_heap heap0" by (simp add: wf_heap_def heap0_def)
  have l: "h_lists heap0 0 = Some [msg_u ''aaaa'', msg_a ''bbbb'', msg_u ''cccc'']"
    by (simp add: heap0_def)
  have ev: "fst (fit_live_chat_to_budget small_cw ''S'' []
                   (Some [msg_u ''aaaa'', msg_a ''bbbb'', msg_u ''cccc'']) [] ''hi'')
              = [msg_u ''cccc'']"
    by code_simp
  from fit_live_chat_to_budget_keeps_argument [OF w l, of small_cw "''S''" "[]" "[]" "''hi''"]
  have "h_lists (snd (fit_live_chat_to_budget_obj small_cw ''S'' [] (Some 0) [] ''hi'' heap0)) 0
          = Some [msg_u ''aaaa'', msg_a ''bbbb'', msg_u ''cccc'']"
    and "(list_val (snd (fit_live_chat_to_budget_obj small_cw ''S'' [] (Some 0) [] ''hi'' heap0))
            (fst (fst (fit_live_chat_to_budget_obj small_cw ''S'' [] (Some 0) [] ''hi'' heap0))),
          snd (fst (fit_live_chat_to_budget_obj small_cw ''S'' [] (Some 0) [] ''hi'' heap0)))
         = fit_live_chat_to_budget small_cw ''S'' []
             (Some [msg_u ''aaaa'', msg_a ''bbbb'', msg_u ''cccc'']) [] ''hi''"
    by blast+
  then show ?thesis
    using w l ev by (metis fst_conv)
qed

end
